theory Spec2Isabelle
  imports Complex_Main
begin

section \<open>Behavioral authentication: the continuous-authentication decision engine\<close>

text \<open>
  A shallow embedding of the decision engine of the behavioral authentication system:
  the adaptive threshold store and the score fusion of \<^verbatim>\<open>src/ml/behavior_models.py\<close>,
  the risk engine and the challenge manager of \<^verbatim>\<open>src/auth/adaptive_response.py\<close>,
  the session registry of \<^verbatim>\<open>src/security/encryption.py\<close> and
  \<^verbatim>\<open>src/security/security_manager.py\<close>, and the orchestration of
  \<^verbatim>\<open>src/auth/auth_manager.py\<close>.

  Python floats are modelled as \<open>real\<close>: the code only adds, subtracts, halves,
  compares and clamps scores, and no property below depends on rounding. Dictionaries
  are maps, objects mutated in place are records returned updated, and every reading of
  the clock (\<^verbatim>\<open>time.time()\<close>) and every fresh identifier (\<^verbatim>\<open>uuid4\<close>) is
  an argument of the function that reads it.
\<close>

subsection \<open>Configuration\<close>

text \<open>
  The configuration is a nested dictionary read with \<^verbatim>\<open>config.get(k, {})\<close>; an absent
  section is \<open>None\<close>. Only the keys the engine reads are kept.
\<close>

record challenges_config =
  max_attempts :: "int option"
  lockout_duration :: "real option"

record authentication_config =
  confidence_levels :: "(string \<rightharpoonup> real) option"
  challenges :: "challenges_config option"

record session_config =
  timeout_minutes :: "real option"
  idle_timeout_minutes :: "real option"
  max_concurrent_sessions :: "int option"

record security_config =
  session :: "session_config option"

record config =
  authentication :: "authentication_config option"
  security :: "security_config option"

text \<open>\<^verbatim>\<open>config.get('authentication', {}).get('confidence_levels', {}).get(key, default)\<close>\<close>

definition confidence_level_setting :: "config \<Rightarrow> string \<Rightarrow> real \<Rightarrow> real" where
  "confidence_level_setting cfg key dflt =
     (case authentication cfg of
        None \<Rightarrow> dflt
      | Some auth \<Rightarrow>
          (case confidence_levels auth of
             None \<Rightarrow> dflt
           | Some levels \<Rightarrow> (case levels key of None \<Rightarrow> dflt | Some v \<Rightarrow> v)))"

subsection \<open>AdaptiveThresholds\<close>

record AdaptiveThresholds =
  thresholds :: "string \<rightharpoonup> real"
  context_adjustments :: "string \<rightharpoonup> real"
  learning_rate :: real

text \<open>
  \<^verbatim>\<open>AdaptiveThresholds.__init__\<close>: the three base values are read from the
  configuration with the defaults 0.9, 0.7 and 0.5 and stored as they are. The
  constructor has no \<^verbatim>\<open>raise\<close> and no comparison of the values, so the model is a
  total function with no error branch.
\<close>

definition AdaptiveThresholds_init :: "config \<Rightarrow> AdaptiveThresholds" where
  "AdaptiveThresholds_init cfg =
     \<lparr> thresholds =
         [''high_confidence'' \<mapsto> confidence_level_setting cfg ''high'' 0.9,
          ''medium_confidence'' \<mapsto> confidence_level_setting cfg ''medium'' 0.7,
          ''low_confidence'' \<mapsto> confidence_level_setting cfg ''low'' 0.5],
       context_adjustments = Map.empty,
       learning_rate = 0.1 \<rparr>"

text \<open>
  \<^verbatim>\<open>AdaptiveThresholds.adjust_threshold\<close>: a context seen for the first time starts
  at 0.0; the two feedback strings move the accumulator, any other string leaves it;
  the result is clamped to \<open>[-0.3, 0.3]\<close> and stored.
\<close>

definition adjust_threshold ::
  "AdaptiveThresholds \<Rightarrow> string \<Rightarrow> string \<Rightarrow> real \<Rightarrow> AdaptiveThresholds" where
  "adjust_threshold self context feedback current_score =
     (let start = (case context_adjustments self context of None \<Rightarrow> 0.0 | Some a \<Rightarrow> a);
          moved =
            (if feedback = ''false_positive''
               then start - learning_rate self * current_score
             else if feedback = ''false_negative''
               then start + learning_rate self * (1 - current_score)
             else start)
      in self\<lparr>context_adjustments :=
                (context_adjustments self)(context \<mapsto> max (- 0.3) (min 0.3 moved))\<rparr>)"

text \<open>
  \<^verbatim>\<open>AdaptiveThresholds.get_threshold\<close>: an unknown level has the base 0.7, an unknown
  context the adjustment 0.0; the sum is clamped to \<open>[0.1, 0.95]\<close>.
\<close>

definition get_threshold :: "AdaptiveThresholds \<Rightarrow> string \<Rightarrow> string \<Rightarrow> real" where
  "get_threshold self level context =
     (let base_threshold = (case thresholds self level of None \<Rightarrow> 0.7 | Some b \<Rightarrow> b);
          adjustment = (case context_adjustments self context of None \<Rightarrow> 0.0 | Some a \<Rightarrow> a);
          adjusted_threshold = base_threshold + adjustment
      in max 0.1 (min 0.95 adjusted_threshold))"

text \<open>
  A finite sequence of \<^verbatim>\<open>adjust_threshold\<close> calls, each given as
  (context, feedback, current score), applied in order to a store.
\<close>

fun adjust_threshold_calls ::
  "AdaptiveThresholds \<Rightarrow> (string \<times> string \<times> real) list \<Rightarrow> AdaptiveThresholds" where
  "adjust_threshold_calls self [] = self"
| "adjust_threshold_calls self ((context, feedback, current_score) # calls) =
     adjust_threshold_calls (adjust_threshold self context feedback current_score) calls"

text \<open>
  The ordering check of \<^verbatim>\<open>ConfigManager.validate_config\<close>
  (\<^verbatim>\<open>src/ui/config_manager.py\<close>, the block "Validate authentication thresholds"):
  the errors that block appends. Its defaults for absent keys are 0, not the
  constructor's 0.9, 0.7 and 0.5.
\<close>

definition validate_config_thresholds :: "config \<Rightarrow> string list" where
  "validate_config_thresholds cfg =
     (case authentication cfg of
        None \<Rightarrow> []
      | Some auth \<Rightarrow>
          (case confidence_levels auth of
             None \<Rightarrow> []
           | Some levels \<Rightarrow>
               (let high = (case levels ''high'' of None \<Rightarrow> 0 | Some v \<Rightarrow> v);
                    medium = (case levels ''medium'' of None \<Rightarrow> 0 | Some v \<Rightarrow> v);
                    low = (case levels ''low'' of None \<Rightarrow> 0 | Some v \<Rightarrow> v)
                in if \<not> (low \<le> medium \<and> medium \<le> high)
                   then [''Authentication confidence levels must be: low <= medium <= high'']
                   else [])))"

text \<open>The invariant of the store: every stored adjustment lies in \<open>[-0.3, 0.3]\<close>.\<close>

definition adjustments_bounded :: "AdaptiveThresholds \<Rightarrow> bool" where
  "adjustments_bounded self \<longleftrightarrow>
     (\<forall>context a. context_adjustments self context = Some a \<longrightarrow> - 0.3 \<le> a \<and> a \<le> 0.3)"

subsection \<open>Scorers and score fusion\<close>

text \<open>
  \<^verbatim>\<open>BehaviorClassifier.predict\<close> and \<^verbatim>\<open>AnomalyDetector.predict\<close>, first
  component of the returned pair. The guard on \<^verbatim>\<open>is_trained\<close> and the
  \<^verbatim>\<open>except\<close> branch are the code's; what the trained scikit-learn pipeline
  computes inside the \<^verbatim>\<open>try\<close> block is the second argument, \<open>None\<close> when it raises.
\<close>

definition BehaviorClassifier_predict :: "bool \<Rightarrow> real option \<Rightarrow> real" where
  "BehaviorClassifier_predict is_trained model_confidence =
     (if \<not> is_trained then 0.0
      else (case model_confidence of Some confidence \<Rightarrow> confidence | None \<Rightarrow> 0.0))"

definition AnomalyDetector_predict :: "bool \<Rightarrow> real option \<Rightarrow> real" where
  "AnomalyDetector_predict is_trained model_score =
     (if \<not> is_trained then 1.0
      else (case model_score of Some normalized_score \<Rightarrow> normalized_score | None \<Rightarrow> 1.0))"

record MLManager =
  behavior_classifier_is_trained :: bool
  anomaly_detector_is_trained :: bool
  adaptive_thresholds :: AdaptiveThresholds

record behavior_analysis =
  decision :: string
  confidence_level :: string
  combined_confidence :: real
  auth_confidence :: real
  anomaly_score :: real
  high_threshold :: real
  medium_threshold :: real
  low_threshold :: real

text \<open>
  The \<^verbatim>\<open>if/elif\<close> cascade of \<^verbatim>\<open>MLManager.analyze_behavior\<close> (decision and
  confidence level) as a function of the combined confidence and the three effective
  thresholds.
\<close>

definition decision_for :: "real \<Rightarrow> real \<Rightarrow> real \<Rightarrow> real \<Rightarrow> string \<times> string" where
  "decision_for high medium low combined =
     (if combined \<ge> high then (''continue'', ''high'')
      else if combined \<ge> medium then (''monitor'', ''medium'')
      else if combined \<ge> low then (''challenge'', ''low'')
      else (''logout'', ''very_low''))"

definition analyze_behavior ::
  "MLManager \<Rightarrow> real option \<Rightarrow> real option \<Rightarrow> string \<Rightarrow> behavior_analysis" where
  "analyze_behavior self model_confidence model_score context =
     (let auth = BehaviorClassifier_predict (behavior_classifier_is_trained self) model_confidence;
          anomaly = AnomalyDetector_predict (anomaly_detector_is_trained self) model_score;
          combined = (auth + (1 - anomaly)) / 2;
          high = get_threshold (adaptive_thresholds self) ''high_confidence'' context;
          medium = get_threshold (adaptive_thresholds self) ''medium_confidence'' context;
          low = get_threshold (adaptive_thresholds self) ''low_confidence'' context;
          verdict = decision_for high medium low combined
      in \<lparr> decision = fst verdict, confidence_level = snd verdict,
           combined_confidence = combined, auth_confidence = auth, anomaly_score = anomaly,
           high_threshold = high, medium_threshold = medium, low_threshold = low \<rparr>)"

text \<open>
  \<^verbatim>\<open>MLManager.__init__\<close>: both models are created untrained
  (\<^verbatim>\<open>BaseModel.__init__\<close> sets \<^verbatim>\<open>is_trained = False\<close>), the threshold store
  is built from the configuration.
\<close>

definition MLManager_init :: "config \<Rightarrow> MLManager" where
  "MLManager_init cfg =
     \<lparr> behavior_classifier_is_trained = False, anomaly_detector_is_trained = False,
       adaptive_thresholds = AdaptiveThresholds_init cfg \<rparr>"

text \<open>
  The trust ordering of the decisions, continue > monitor > challenge > logout, as a rank.
\<close>

definition trust_level :: "string \<Rightarrow> nat" where
  "trust_level d =
     (if d = ''continue'' then 3 else if d = ''monitor'' then 2
      else if d = ''challenge'' then 1 else 0)"

subsection \<open>Risk engine\<close>

datatype ResponseAction =
    CONTINUE | MONITOR | CHALLENGE_PIN | CHALLENGE_BIOMETRIC | CHALLENGE_SMS
  | RESTRICT_FUNCTIONS | LOCK_SESSION | LOGOUT | ALERT_ADMIN

datatype AlertSeverity = INFO | LOW | MEDIUM | HIGH | CRITICAL


text \<open>
  \<^verbatim>\<open>ResponseEngine._calculate_severity\<close>, in its three steps: the base severity
  from the confidence, the adjustment for the anomaly score, the adjustment for the
  critical risk factors.
\<close>

definition base_severity :: "real \<Rightarrow> AlertSeverity" where
  "base_severity confidence =
     (if confidence < 0.2 then CRITICAL
      else if confidence < 0.4 then HIGH
      else if confidence < 0.6 then MEDIUM
      else LOW)"

definition anomaly_adjusted :: "real \<Rightarrow> AlertSeverity \<Rightarrow> AlertSeverity" where
  "anomaly_adjusted anomaly sev =
     (if anomaly > 0.8 then (if sev \<in> set [LOW, MEDIUM] then HIGH else sev) else sev)"

definition critical_factors :: "string list" where
  "critical_factors = [''device_fingerprint_mismatch'', ''very_low_behavioral_confidence'']"

definition factor_adjusted :: "string list \<Rightarrow> AlertSeverity \<Rightarrow> AlertSeverity" where
  "factor_adjusted factors sev =
     (if list_ex (\<lambda>factor. factor \<in> set factors) critical_factors
      then (if sev \<noteq> CRITICAL then HIGH else sev)
      else sev)"

definition calculate_severity :: "real \<Rightarrow> real \<Rightarrow> string list \<Rightarrow> AlertSeverity" where
  "calculate_severity confidence anomaly factors =
     factor_adjusted factors (anomaly_adjusted anomaly (base_severity confidence))"

text \<open>
  \<^verbatim>\<open>ResponseEngine._recommend_actions\<close>. The final loop keeps the first occurrence
  of each action, in order.
\<close>

fun unique_actions :: "ResponseAction list \<Rightarrow> ResponseAction list \<Rightarrow> ResponseAction list" where
  "unique_actions seen [] = seen"
| "unique_actions seen (action # actions) =
     unique_actions (if action \<in> set seen then seen else seen @ [action]) actions"

definition recommend_actions ::
  "string \<Rightarrow> AlertSeverity \<Rightarrow> string list \<Rightarrow> ResponseAction list" where
  "recommend_actions level sev factors =
     (let from_level =
            (if level = ''high'' then [CONTINUE]
             else if level = ''medium'' then [MONITOR, CONTINUE]
             else if level = ''low'' then [CHALLENGE_PIN, MONITOR]
             else [LOGOUT, ALERT_ADMIN]);
          from_severity =
            (if sev = CRITICAL then [LOGOUT, ALERT_ADMIN, LOCK_SESSION]
             else if sev = HIGH then [CHALLENGE_BIOMETRIC, RESTRICT_FUNCTIONS]
             else []);
          from_device =
            (if ''device_fingerprint_mismatch'' \<in> set factors then [CHALLENGE_SMS] else []);
          from_location =
            (if ''unusual_location'' \<in> set factors then [CHALLENGE_BIOMETRIC] else [])
      in unique_actions [] (from_level @ from_severity @ from_device @ from_location))"

text \<open>
  The security context of \<^verbatim>\<open>ResponseEngine.analyze_risk\<close>: the three flags are read
  with \<^verbatim>\<open>security_context.get(flag, False)\<close>, so an absent flag is \<open>False\<close>.
\<close>

record security_context =
  device_mismatch :: bool
  location_change :: bool
  time_anomaly :: bool

record risk_assessment =
  severity :: AlertSeverity
  confidence_score :: real
  risk_factors :: "string list"
  recommended_actions :: "ResponseAction list"

text \<open>
  \<^verbatim>\<open>ResponseEngine.analyze_risk\<close>: the fields of the alert that are computed from
  the analysis (the alert id, the timestamp, the user and session ids and the metadata
  are copied or generated, and left out).
\<close>

definition analyze_risk :: "behavior_analysis \<Rightarrow> security_context \<Rightarrow> risk_assessment" where
  "analyze_risk behavioral_analysis context =
     (let confidence = combined_confidence behavioral_analysis;
          level = confidence_level behavioral_analysis;
          anomaly = anomaly_score behavioral_analysis;
          factors =
            (if confidence < 0.3 then [''very_low_behavioral_confidence'']
             else if confidence < 0.5 then [''low_behavioral_confidence'']
             else [])
            @ (if anomaly > 0.7 then [''high_anomaly_score''] else [])
            @ (if device_mismatch context then [''device_fingerprint_mismatch''] else [])
            @ (if location_change context then [''unusual_location''] else [])
            @ (if time_anomaly context then [''unusual_time_pattern''] else []);
          sev = calculate_severity confidence anomaly factors
      in \<lparr> severity = sev, confidence_score = confidence, risk_factors = factors,
           recommended_actions = recommend_actions level sev factors \<rparr>)"

subsection \<open>Challenge manager\<close>

record AuthChallenge =
  challenge_id :: string
  challenge_type :: string
  user_id :: string
  session_id :: string
  created_at :: real
  expires_at :: real
  attempts_remaining :: int
  is_completed :: bool
  is_successful :: bool

text \<open>
  The response dictionary: the keys the validators read, \<open>None\<close> when a key is absent.
\<close>

record challenge_response =
  pin :: "string option"
  expected_pin :: "string option"
  biometric_data :: "string option"
  biometric_confidence :: "real option"
  sms_code :: "string option"
  expected_code :: "string option"

record ChallengeManager =
  active_challenges :: "string \<rightharpoonup> AuthChallenge"
  max_attempts :: int
  challenge_timeout :: real

text \<open>
  \<^verbatim>\<open>ChallengeManager.__init__\<close>: \<^verbatim>\<open>max_attempts\<close> defaults to 3 and the
  timeout, read from \<^verbatim>\<open>lockout_duration\<close>, to 300.
\<close>

definition ChallengeManager_init :: "config \<Rightarrow> ChallengeManager" where
  "ChallengeManager_init cfg =
     (let section =
            (case authentication cfg of None \<Rightarrow> None | Some auth \<Rightarrow> challenges auth)
      in \<lparr> active_challenges = Map.empty,
           max_attempts =
             (case section of None \<Rightarrow> 3
              | Some c \<Rightarrow> (case challenges_config.max_attempts c of None \<Rightarrow> 3 | Some n \<Rightarrow> n)),
           challenge_timeout =
             (case section of None \<Rightarrow> 300
              | Some c \<Rightarrow> (case lockout_duration c of None \<Rightarrow> 300 | Some d \<Rightarrow> d)) \<rparr>)"

text \<open>
  \<^verbatim>\<open>ChallengeManager.create_challenge\<close>: the identifier is \<^verbatim>\<open>uuid4\<close>, the clock
  is read once for \<^verbatim>\<open>created_at\<close> and once for \<^verbatim>\<open>expires_at\<close>.
\<close>

definition create_challenge ::
  "ChallengeManager \<Rightarrow> string \<Rightarrow> string \<Rightarrow> string \<Rightarrow> string \<Rightarrow> real \<Rightarrow> real
     \<Rightarrow> ChallengeManager \<times> AuthChallenge" where
  "create_challenge self ctype uid sid new_id now now' =
     (let challenge =
            \<lparr> challenge_id = new_id, challenge_type = ctype, user_id = uid, session_id = sid,
              created_at = now, expires_at = now' + challenge_timeout self,
              attempts_remaining = max_attempts self,
              is_completed = False, is_successful = False \<rparr>
      in (self\<lparr>active_challenges := (active_challenges self)(new_id \<mapsto> challenge)\<rparr>, challenge))"

definition validate_pin_challenge :: "challenge_response \<Rightarrow> bool \<times> string" where
  "validate_pin_challenge response =
     (let provided_pin = (case pin response of None \<Rightarrow> [] | Some v \<Rightarrow> v);
          expected = (case expected_pin response of None \<Rightarrow> [] | Some v \<Rightarrow> v)
      in if provided_pin = [] then (False, ''PIN not provided'')
         else if provided_pin = expected then (True, ''PIN verified'')
         else (False, ''Invalid PIN''))"

definition validate_biometric_challenge :: "challenge_response \<Rightarrow> bool \<times> string" where
  "validate_biometric_challenge response =
     (if biometric_data response = None \<or> biometric_data response = Some []
      then (False, ''Biometric data not provided'')
      else (let confidence = (case biometric_confidence response of None \<Rightarrow> 0.0 | Some c \<Rightarrow> c)
            in if confidence \<ge> 0.8 then (True, ''Biometric verified'')
               else (False, ''Biometric verification failed'')))"

definition validate_sms_challenge :: "challenge_response \<Rightarrow> bool \<times> string" where
  "validate_sms_challenge response =
     (let provided_code = (case sms_code response of None \<Rightarrow> [] | Some v \<Rightarrow> v);
          expected = (case expected_code response of None \<Rightarrow> [] | Some v \<Rightarrow> v)
      in if provided_code = [] then (False, ''SMS code not provided'')
         else if provided_code = expected then (True, ''SMS code verified'')
         else (False, ''Invalid SMS code''))"

definition validate_challenge_response ::
  "AuthChallenge \<Rightarrow> challenge_response \<Rightarrow> bool \<times> string" where
  "validate_challenge_response challenge response =
     (if challenge_type challenge = ''pin'' then validate_pin_challenge response
      else if challenge_type challenge = ''biometric'' then validate_biometric_challenge response
      else if challenge_type challenge = ''sms'' then validate_sms_challenge response
      else (False, ''Unknown challenge type: '' @ challenge_type challenge))"

text \<open>
  \<^verbatim>\<open>ChallengeManager.process_challenge_response\<close>, with the clock reading of the
  expiry check as an argument. The challenge object is mutated in place inside the
  dictionary; the model stores the updated record under the same key.
\<close>

definition process_challenge_response ::
  "ChallengeManager \<Rightarrow> string \<Rightarrow> challenge_response \<Rightarrow> real
     \<Rightarrow> ChallengeManager \<times> (bool \<times> string)" where
  "process_challenge_response self cid response now =
     (case active_challenges self cid of
        None \<Rightarrow> (self, (False, ''Challenge not found or expired''))
      | Some challenge \<Rightarrow>
          if now > expires_at challenge
          then (self\<lparr>active_challenges := (active_challenges self)(cid := None)\<rparr>,
                (False, ''Challenge expired''))
          else if is_completed challenge
          then (self, (is_successful challenge, ''Challenge already completed''))
          else
            (let outcome = validate_challenge_response challenge response
             in if fst outcome
                then (self\<lparr>active_challenges := (active_challenges self)
                         (cid \<mapsto> challenge\<lparr>is_completed := True, is_successful := True\<rparr>)\<rparr>,
                      (True, snd outcome))
                else
                  (let decremented =
                         challenge\<lparr>attempts_remaining := attempts_remaining challenge - 1\<rparr>
                   in if attempts_remaining decremented \<le> 0
                      then (self\<lparr>active_challenges := (active_challenges self)
                               (cid \<mapsto> decremented\<lparr>is_completed := True, is_successful := False\<rparr>)\<rparr>,
                            (False, ''Maximum attempts exceeded''))
                      else (self\<lparr>active_challenges := (active_challenges self)(cid \<mapsto> decremented)\<rparr>,
                            (False, snd outcome)))))"

text \<open>
  Consecutive \<^verbatim>\<open>process_challenge_response\<close> calls on one challenge, each given as
  (response, clock reading): the final manager and the results in call order.
\<close>

fun process_challenge_responses ::
  "ChallengeManager \<Rightarrow> string \<Rightarrow> (challenge_response \<times> real) list
     \<Rightarrow> ChallengeManager \<times> (bool \<times> string) list" where
  "process_challenge_responses self cid [] = (self, [])"
| "process_challenge_responses self cid ((response, now) # calls) =
     (let step = process_challenge_response self cid response now;
          rest = process_challenge_responses (fst step) cid calls
      in (fst rest, snd step # snd rest))"


subsection \<open>Session registry\<close>

record SessionToken =
  token_id :: string
  user_id :: string
  session_id :: string
  created_at :: real
  expires_at :: real
  last_activity :: real
  device_fingerprint :: "string option"
  ip_address :: "string option"

record SessionManager =
  active_sessions :: "string \<rightharpoonup> SessionToken"
  session_timeout :: real
  idle_timeout :: real
  max_concurrent :: int

text \<open>
  \<^verbatim>\<open>SessionManager.__init__\<close>: the two timeouts are configured in minutes
  (defaults 30 and 15) and kept in seconds; at most 3 concurrent sessions by default.
\<close>

definition SessionManager_init :: "config \<Rightarrow> SessionManager" where
  "SessionManager_init cfg =
     (let section = (case security cfg of None \<Rightarrow> None | Some sec \<Rightarrow> session sec)
      in \<lparr> active_sessions = Map.empty,
           session_timeout =
             (case section of None \<Rightarrow> 30
              | Some c \<Rightarrow> (case timeout_minutes c of None \<Rightarrow> 30 | Some m \<Rightarrow> m)) * 60,
           idle_timeout =
             (case section of None \<Rightarrow> 15
              | Some c \<Rightarrow> (case idle_timeout_minutes c of None \<Rightarrow> 15 | Some m \<Rightarrow> m)) * 60,
           max_concurrent =
             (case section of None \<Rightarrow> 3
              | Some c \<Rightarrow> (case max_concurrent_sessions c of None \<Rightarrow> 3 | Some n \<Rightarrow> n)) \<rparr>)"

text \<open>
  Python truthiness of an \<^verbatim>\<open>Optional[str]\<close>: \<^verbatim>\<open>None\<close> and the empty string
  are false.
\<close>

definition supplied :: "string option \<Rightarrow> bool" where
  "supplied v = (case v of None \<Rightarrow> False | Some text \<Rightarrow> text \<noteq> [])"

definition is_valid :: "SessionToken \<Rightarrow> real \<Rightarrow> bool" where
  "is_valid token now = (now < SessionToken.expires_at token)"

definition is_expired :: "SessionToken \<Rightarrow> real \<Rightarrow> bool" where
  "is_expired token now = (\<not> is_valid token now)"

definition invalidate_session :: "SessionManager \<Rightarrow> string \<Rightarrow> SessionManager \<times> bool" where
  "invalidate_session self sid =
     (if sid \<in> dom (active_sessions self)
      then (self\<lparr>active_sessions := (active_sessions self)(sid := None)\<rparr>, True)
      else (self, False))"

text \<open>
  \<^verbatim>\<open>SessionManager.validate_session\<close>. The clock is read by the expiry check
  (\<open>now1\<close>), by the idle check (\<open>now2\<close>) and by \<^verbatim>\<open>update_activity\<close>
  (\<open>now3\<close>). The branch for a differing IP address is \<^verbatim>\<open>pass\<close>: both of its
  outcomes continue to the refresh of \<^verbatim>\<open>last_activity\<close>.
\<close>

definition SessionManager_validate_session ::
  "SessionManager \<Rightarrow> string \<Rightarrow> string option \<Rightarrow> string option \<Rightarrow> real \<Rightarrow> real \<Rightarrow> real
     \<Rightarrow> SessionManager \<times> SessionToken option" where
  "SessionManager_validate_session self sid fingerprint ip now1 now2 now3 =
     (case active_sessions self sid of
        None \<Rightarrow> (self, None)
      | Some token \<Rightarrow>
          if is_expired token now1 then (fst (invalidate_session self sid), None)
          else if now2 - last_activity token > idle_timeout self
          then (fst (invalidate_session self sid), None)
          else if supplied fingerprint \<and> supplied (device_fingerprint token)
                  \<and> fingerprint \<noteq> device_fingerprint token
          then (fst (invalidate_session self sid), None)
          else
            (let refreshed = token\<lparr>last_activity := now3\<rparr>
             in if supplied ip \<and> supplied (ip_address token) \<and> ip \<noteq> ip_address token
                then (self\<lparr>active_sessions := (active_sessions self)(sid \<mapsto> refreshed)\<rparr>,
                      Some refreshed)
                else (self\<lparr>active_sessions := (active_sessions self)(sid \<mapsto> refreshed)\<rparr>,
                      Some refreshed)))"

text \<open>
  \<^verbatim>\<open>SecurityManager._assess_session_security\<close>: the risk score, the security level
  (the value of the enumeration, a string) and the flag for additional authentication.
\<close>

record security_assessment =
  security_level :: string
  risk_score :: real
  requires_additional_auth :: bool

definition assess_session_security ::
  "SessionToken \<Rightarrow> string option \<Rightarrow> string option \<Rightarrow> real \<Rightarrow> security_assessment" where
  "assess_session_security token fingerprint ip now =
     (let device_differs = (supplied fingerprint \<and> supplied (device_fingerprint token)
                             \<and> fingerprint \<noteq> device_fingerprint token);
          risk0 = (if device_differs then 0.3 else 0.0);
          level0 = (if device_differs then ''medium'' else ''low'');
          risk1 = (if supplied ip \<and> supplied (ip_address token) \<and> ip \<noteq> ip_address token
                   then risk0 + 0.2 else risk0);
          session_age = now - SessionToken.created_at token;
          risk2 = (if session_age > 3600 then risk1 + 0.1 else risk1)
      in if risk2 \<ge> 0.5
         then \<lparr> security_level = ''high'', risk_score = risk2, requires_additional_auth = True \<rparr>
         else if risk2 \<ge> 0.3
         then \<lparr> security_level = ''medium'', risk_score = risk2, requires_additional_auth = False \<rparr>
         else \<lparr> security_level = level0, risk_score = risk2, requires_additional_auth = False \<rparr>)"

record session_info =
  user_id :: string
  session_id :: string
  assessment :: security_assessment

text \<open>
  \<^verbatim>\<open>SecurityManager.validate_session\<close>: the session manager's validation followed
  by the assessment (clock reading \<open>now4\<close>). The security event logged on failure is
  left out; it does not feed the result.
\<close>

definition SecurityManager_validate_session ::
  "SessionManager \<Rightarrow> string \<Rightarrow> string option \<Rightarrow> string option
     \<Rightarrow> real \<Rightarrow> real \<Rightarrow> real \<Rightarrow> real
     \<Rightarrow> SessionManager \<times> (bool \<times> session_info option)" where
  "SecurityManager_validate_session self sid fingerprint ip now1 now2 now3 now4 =
     (let checked = SessionManager_validate_session self sid fingerprint ip now1 now2 now3
      in case snd checked of
           None \<Rightarrow> (fst checked, (False, None))
         | Some token \<Rightarrow>
             (fst checked,
              (True, Some \<lparr> user_id = SessionToken.user_id token,
                            session_id = SessionToken.session_id token,
                            assessment = assess_session_security token fingerprint ip now4 \<rparr>)))"

subsection \<open>Authentication manager\<close>

record BehaviorSession =
  session_id :: string
  user_id :: string
  start_time :: real
  features_collected :: int
  is_active :: bool
  confidence_score :: real

record BehavioralDataManager =
  current_session :: "BehaviorSession option"
  is_running :: bool

text \<open>
  \<^verbatim>\<open>BehavioralDataManager.stop_session\<close>. It takes no session id: it stops the one
  current session. The collectors' \<^verbatim>\<open>stop_collection\<close> calls stop external
  listeners; \<open>collectors_stop\<close> says whether they return (\<open>False\<close>: one of them
  raises, and the \<^verbatim>\<open>except\<close> branch returns \<^verbatim>\<open>False\<close>).
\<close>

definition stop_session :: "BehavioralDataManager \<Rightarrow> bool \<Rightarrow> BehavioralDataManager \<times> bool" where
  "stop_session self collectors_stop =
     (case current_session self of
        None \<Rightarrow> (self, False)
      | Some s \<Rightarrow>
          if \<not> collectors_stop then (self\<lparr>is_running := False\<rparr>, False)
          else (self\<lparr>is_running := False, current_session := Some (s\<lparr>is_active := False\<rparr>)\<rparr>, True))"

text \<open>An entry of \<^verbatim>\<open>AuthenticationManager.active_sessions\<close>.\<close>

record session_state =
  user_id :: string
  start_time :: real
  last_authentication :: real
  authentication_count :: int
  device_fingerprint :: "string option"
  ip_address :: "string option"

record AuthenticationManager =
  behavioral_manager :: BehavioralDataManager
  session_manager :: SessionManager
  ml_manager :: MLManager
  active_sessions :: "string \<rightharpoonup> session_state"
  feature_history :: "string \<rightharpoonup> (string \<rightharpoonup> real) list"

text \<open>
  \<^verbatim>\<open>AuthenticationManager.__init__\<close>: no behavioral session, no security
  session, untrained models, empty dictionaries.
\<close>

definition AuthenticationManager_init :: "config \<Rightarrow> AuthenticationManager" where
  "AuthenticationManager_init cfg =
     \<lparr> behavioral_manager = \<lparr> current_session = None, is_running = False \<rparr>,
       session_manager = SessionManager_init cfg,
       ml_manager = MLManager_init cfg,
       active_sessions = Map.empty,
       feature_history = Map.empty \<rparr>"

text \<open>
  \<^verbatim>\<open>AuthenticationManager.end_session\<close>: stop the behavioral session, invalidate the
  security session, delete the entries of the two dictionaries. None of the calls in
  the \<^verbatim>\<open>try\<close> block raises (\<^verbatim>\<open>stop_session\<close> catches its own exceptions,
  \<^verbatim>\<open>invalidate_session\<close> and the deletions are guarded), so the result is
  \<^verbatim>\<open>True\<close>.
\<close>

definition end_session ::
  "AuthenticationManager \<Rightarrow> string \<Rightarrow> bool \<Rightarrow> AuthenticationManager \<times> bool" where
  "end_session self sid collectors_stop =
     (let stopped = fst (stop_session (behavioral_manager self) collectors_stop);
          invalidated = fst (invalidate_session (session_manager self) sid);
          sessions = (if sid \<in> dom (active_sessions self)
                      then (active_sessions self)(sid := None) else active_sessions self);
          history = (if sid \<in> dom (feature_history self)
                     then (feature_history self)(sid := None) else feature_history self)
      in (self\<lparr> behavioral_manager := stopped, session_manager := invalidated,
                 active_sessions := sessions, feature_history := history \<rparr>, True))"

record AuthenticationResult =
  success :: bool
  confidence :: real
  user_id :: string
  session_id :: string
  decision :: string
  message :: string

definition get_decision_message :: "string \<Rightarrow> string" where
  "get_decision_message d =
     (if d = ''continue'' then ''Authentication successful - continuing normal operation''
      else if d = ''monitor'' then ''Authentication successful - enhanced monitoring enabled''
      else if d = ''challenge'' then ''Additional authentication required''
      else if d = ''logout'' then ''Authentication failed - session terminated''
      else ''Unknown decision: '' @ d)"

text \<open>
  How a call into a collaborator outside the engine ended: it raised, it returned
  \<^verbatim>\<open>None\<close>, or it returned a value.
\<close>

datatype call_outcome = Raised | Returned_None | Returned_value

text \<open>
  \<^verbatim>\<open>AuthenticationManager.authenticate_continuously\<close>, the result it returns.
  Arguments: the outcome of \<^verbatim>\<open>security_manager.validate_session\<close>; how
  \<^verbatim>\<open>behavioral_manager.get_current_features\<close> ended; how
  \<^verbatim>\<open>feature_extractor.extract_features\<close> ended; the outputs of the two trained
  models; the context tag (\<open>None\<close>: no context, the tag is \<^verbatim>\<open>'default'\<close>).
  The lookup \<^verbatim>\<open>self.active_sessions[session_id]\<close> raises when the entry is
  absent; every exception ends in the \<^verbatim>\<open>except\<close> branch. The updates of the
  session state and of the statistics, and the response actions, do not feed the
  result and are left out.
\<close>

definition authenticate_continuously ::
  "AuthenticationManager \<Rightarrow> string \<Rightarrow> string option \<Rightarrow> bool \<times> session_info option
     \<Rightarrow> call_outcome \<Rightarrow> call_outcome \<Rightarrow> real option \<Rightarrow> real option
     \<Rightarrow> AuthenticationResult" where
  "authenticate_continuously self sid tag validation features extraction
       model_confidence model_score =
     (let system_error =
            \<lparr> success = False, confidence = 0.0, user_id = ''unknown'', session_id = sid,
              decision = ''logout'', message = ''Authentication system error'' \<rparr>
      in case (if fst validation then snd validation else None) of
           None \<Rightarrow>
             \<lparr> success = False, confidence = 0.0, user_id = ''unknown'', session_id = sid,
               decision = ''logout'', message = ''Session validation failed'' \<rparr>
         | Some info \<Rightarrow>
             (case features of
                Raised \<Rightarrow> system_error
              | Returned_None \<Rightarrow>
                  \<lparr> success = True, confidence = 0.5, user_id = session_info.user_id info,
                    session_id = sid, decision = ''monitor'',
                    message = ''Insufficient behavioral data'' \<rparr>
              | Returned_value \<Rightarrow>
                  if sid \<notin> dom (active_sessions self) \<or> extraction \<noteq> Returned_value
                  then system_error
                  else
                    (let ml_analysis =
                           analyze_behavior (ml_manager self) model_confidence model_score
                             (case tag of None \<Rightarrow> ''default'' | Some t \<Rightarrow> t)
                     in \<lparr> success = (behavior_analysis.decision ml_analysis
                                          \<in> set [''continue'', ''monitor'']),
                          confidence = combined_confidence ml_analysis,
                          user_id = session_info.user_id info, session_id = sid,
                          decision = behavior_analysis.decision ml_analysis,
                          message = get_decision_message
                                      (behavior_analysis.decision ml_analysis) \<rparr>)))"

text \<open>
  A manager that holds one session, \<^verbatim>\<open>'s1'\<close> of user \<^verbatim>\<open>'alice'\<close>: its security
  token, its entry in \<^verbatim>\<open>active_sessions\<close>, its feature history, and the
  behavioral session collecting for it.
\<close>

definition one_session_manager :: AuthenticationManager where
  "one_session_manager =
     (AuthenticationManager_init \<lparr>authentication = None, security = None\<rparr>)
       \<lparr> behavioral_manager :=
           \<lparr> current_session =
               Some \<lparr> BehaviorSession.session_id = ''s1'', BehaviorSession.user_id = ''alice'',
                      BehaviorSession.start_time = 0, features_collected = 0,
                      is_active = True, confidence_score = 0 \<rparr>,
             is_running = True \<rparr>,
         session_manager :=
           (SessionManager_init \<lparr>authentication = None, security = None\<rparr>)
             \<lparr> SessionManager.active_sessions :=
                 [''s1'' \<mapsto> \<lparr> token_id = ''t1'', SessionToken.user_id = ''alice'',
                    SessionToken.session_id = ''s1'', SessionToken.created_at = 0,
                    SessionToken.expires_at = 1800, last_activity = 0,
                    SessionToken.device_fingerprint = None,
                    SessionToken.ip_address = None \<rparr>] \<rparr>,
         active_sessions :=
           [''s1'' \<mapsto> \<lparr> session_state.user_id = ''alice'', start_time = 0,
              last_authentication = 0, authentication_count = 0,
              device_fingerprint = None, ip_address = None \<rparr>],
         feature_history := [''s1'' \<mapsto> []] \<rparr>"


section \<open>Properties of the adaptive threshold store\<close>

lemma clamp_range:
  fixes lo hi x :: real
  assumes "lo \<le> hi"
  shows "lo \<le> max lo (min hi x)" and "max lo (min hi x) \<le> hi"
  using assms by (simp_all add: max_def min_def)

lemma clamp_fixed:
  fixes lo hi x :: real
  assumes "lo \<le> x" and "x \<le> hi"
  shows "max lo (min hi x) = x"
  using assms by (simp add: max_def min_def)

lemma adjustments_bounded_init: "adjustments_bounded (AdaptiveThresholds_init cfg)"
  by (simp add: adjustments_bounded_def AdaptiveThresholds_init_def)

lemma adjustments_bounded_step:
  assumes "adjustments_bounded self"
  shows "adjustments_bounded (adjust_threshold self context feedback current_score)"
proof -
  have "- 0.3 \<le> max (- 0.3) (min 0.3 m) \<and> max (- 0.3) (min 0.3 m) \<le> 0.3" for m :: real
    using clamp_range [of "- 0.3" "0.3" m] by simp
  with assms show ?thesis
    unfolding adjustments_bounded_def adjust_threshold_def Let_def
    by (simp split: if_splits)
qed

lemma adjustments_bounded_calls:
  "adjustments_bounded self \<Longrightarrow> adjustments_bounded (adjust_threshold_calls self calls)"
proof (induction calls arbitrary: self)
  case Nil
  then show ?case by simp
next
  case (Cons call calls)
  obtain c feedback current_score where call: "call = (c, feedback, current_score)"
    by (cases call) auto
  from Cons.prems have "adjustments_bounded (adjust_threshold self c feedback current_score)"
    by (rule adjustments_bounded_step)
  then show ?case
    using Cons.IH call by simp
qed

lemma get_threshold_range:
  "0.1 \<le> get_threshold self level context \<and> get_threshold self level context \<le> 0.95"
  unfolding get_threshold_def Let_def
  using clamp_range [of "0.1" "0.95"] by simp

text \<open>
  C8. Starting from a freshly constructed store, after any finite sequence of
  \<^verbatim>\<open>adjust_threshold\<close> calls (any contexts, any feedback strings, any scores, in any
  order) every stored adjustment lies in \<open>[-0.3, 0.3]\<close>, the adjustment
  \<^verbatim>\<open>get_threshold\<close> reads for any context (0.0 when absent) lies there too, and
  every value \<^verbatim>\<open>get_threshold\<close> returns lies in \<open>[0.1, 0.95]\<close>.
\<close>

theorem adjustment_and_threshold_bounds:
  fixes cfg :: config and calls :: "(string \<times> string \<times> real) list"
  defines "store \<equiv> adjust_threshold_calls (AdaptiveThresholds_init cfg) calls"
  shows "(\<forall>context a. context_adjustments store context = Some a \<longrightarrow> - 0.3 \<le> a \<and> a \<le> 0.3)
       \<and> (\<forall>context. - 0.3 \<le> (case context_adjustments store context of None \<Rightarrow> 0.0 | Some a \<Rightarrow> a)
                   \<and> (case context_adjustments store context of None \<Rightarrow> 0.0 | Some a \<Rightarrow> a) \<le> 0.3)
       \<and> (\<forall>level context. 0.1 \<le> get_threshold store level context
                         \<and> get_threshold store level context \<le> 0.95)"
proof -
  have inv: "adjustments_bounded store"
    unfolding store_def by (rule adjustments_bounded_calls) (rule adjustments_bounded_init)
  then have stored: "\<forall>context a. context_adjustments store context = Some a \<longrightarrow> - 0.3 \<le> a \<and> a \<le> 0.3"
    by (simp add: adjustments_bounded_def)
  have read: "\<forall>context. - 0.3 \<le> (case context_adjustments store context of None \<Rightarrow> 0.0 | Some a \<Rightarrow> a)
                   \<and> (case context_adjustments store context of None \<Rightarrow> 0.0 | Some a \<Rightarrow> a) \<le> 0.3"
  proof
    fix c
    show "- 0.3 \<le> (case context_adjustments store c of None \<Rightarrow> 0.0 | Some a \<Rightarrow> a)
        \<and> (case context_adjustments store c of None \<Rightarrow> 0.0 | Some a \<Rightarrow> a) \<le> 0.3"
      using stored by (cases "context_adjustments store c") auto
  qed
  from stored read get_threshold_range show ?thesis by blast
qed

theorem adjustment_and_threshold_bounds_witness:
  "context_adjustments
     (adjust_threshold_calls (AdaptiveThresholds_init \<lparr>authentication = None, security = None\<rparr>)
        [(''login'', ''false_negative'', 0), (''login'', ''false_negative'', 0),
         (''login'', ''false_negative'', 0), (''login'', ''false_negative'', 0),
         (''login'', ''false_negative'', 0)]) ''login'' = Some 0.3
   \<and> - 0.3 \<le> (0.3 :: real) \<and> (0.3 :: real) \<le> 0.3
   \<and> get_threshold
        (adjust_threshold_calls (AdaptiveThresholds_init \<lparr>authentication = None, security = None\<rparr>)
           [(''login'', ''false_negative'', 0), (''login'', ''false_negative'', 0),
            (''login'', ''false_negative'', 0), (''login'', ''false_negative'', 0),
            (''login'', ''false_negative'', 0)]) ''high_confidence'' ''login'' = 0.95"
  using adjustment_and_threshold_bounds
    [of "\<lparr>authentication = None, security = None\<rparr>"
        "[(''login'', ''false_negative'', 0), (''login'', ''false_negative'', 0),
          (''login'', ''false_negative'', 0), (''login'', ''false_negative'', 0),
          (''login'', ''false_negative'', 0)]"]
  by (simp add: AdaptiveThresholds_init_def adjust_threshold_def get_threshold_def
        confidence_level_setting_def Let_def)

text \<open>
  C10. On a store reached from construction by \<^verbatim>\<open>adjust_threshold\<close> calls, one more
  call whose feedback string is neither \<^verbatim>\<open>'false_positive'\<close> nor
  \<^verbatim>\<open>'false_negative'\<close> leaves every value of \<^verbatim>\<open>get_threshold\<close> as it was,
  for every level and every context (the context of the call included: its stored
  adjustment is already within the clamp, or is created as 0.0, the value read for an
  absent context).
\<close>

theorem unknown_feedback_keeps_thresholds:
  assumes "feedback \<noteq> ''false_positive''" and "feedback \<noteq> ''false_negative''"
  shows "get_threshold
           (adjust_threshold (adjust_threshold_calls (AdaptiveThresholds_init cfg) calls)
              context feedback current_score) level context' =
         get_threshold (adjust_threshold_calls (AdaptiveThresholds_init cfg) calls) level context'"
proof -
  define store where "store = adjust_threshold_calls (AdaptiveThresholds_init cfg) calls"
  have inv: "adjustments_bounded store"
    unfolding store_def by (rule adjustments_bounded_calls) (rule adjustments_bounded_init)
  have same: "(case context_adjustments (adjust_threshold store context feedback current_score) context'
                 of None \<Rightarrow> 0.0 | Some a \<Rightarrow> a) =
              (case context_adjustments store context' of None \<Rightarrow> 0.0 | Some a \<Rightarrow> a)"
  proof (cases "context_adjustments store context")
    case None
    with assms show ?thesis
      by (simp add: adjust_threshold_def Let_def)
  next
    case (Some a)
    with inv have "- 0.3 \<le> a" and "a \<le> 0.3"
      by (simp_all add: adjustments_bounded_def)
    then have "max (- 0.3) (min 0.3 a) = a"
      by (rule clamp_fixed)
    with assms Some show ?thesis
      by (simp add: adjust_threshold_def Let_def)
  qed
  have "thresholds (adjust_threshold store context feedback current_score) = thresholds store"
    by (simp add: adjust_threshold_def Let_def)
  with same show ?thesis
    unfolding store_def [symmetric] get_threshold_def Let_def by simp
qed

theorem unknown_feedback_keeps_thresholds_witness:
  "''true_positive'' \<noteq> ''false_positive'' \<and> ''true_positive'' \<noteq> ''false_negative''
   \<and> get_threshold
        (adjust_threshold
           (adjust_threshold_calls (AdaptiveThresholds_init \<lparr>authentication = None, security = None\<rparr>)
              [(''login'', ''false_negative'', 0)])
           ''login'' ''true_positive'' 0.5) ''low_confidence'' ''login'' =
       get_threshold
         (adjust_threshold_calls (AdaptiveThresholds_init \<lparr>authentication = None, security = None\<rparr>)
            [(''login'', ''false_negative'', 0)]) ''low_confidence'' ''login''
   \<and> get_threshold
         (adjust_threshold_calls (AdaptiveThresholds_init \<lparr>authentication = None, security = None\<rparr>)
            [(''login'', ''false_negative'', 0)]) ''low_confidence'' ''login'' = 0.6"
  using unknown_feedback_keeps_thresholds
    [of "''true_positive''" "\<lparr>authentication = None, security = None\<rparr>" "[(''login'', ''false_negative'', 0)]"
        "''login''" "0.5" "''low_confidence''" "''login''"]
  by (simp add: AdaptiveThresholds_init_def adjust_threshold_def get_threshold_def
        confidence_level_setting_def Let_def)

text \<open>
  C4. The configuration \<^verbatim>\<open>{'authentication': {'confidence_levels': {'high': 0.9,
  'medium': 0.7, 'low': 0.8}}}\<close> has \<open>low > medium\<close>. The ordering check of
  \<^verbatim>\<open>ConfigManager.validate_config\<close> reports it as an error, but
  \<^verbatim>\<open>AdaptiveThresholds.__init__\<close> constructs a store from it and keeps the values
  as given: \<^verbatim>\<open>get_threshold\<close> then returns a low threshold above the medium one.
\<close>

theorem misordered_thresholds_constructed:
  "validate_config_thresholds
     \<lparr>authentication = Some \<lparr>confidence_levels =
        Some [''high'' \<mapsto> 0.9, ''medium'' \<mapsto> 0.7, ''low'' \<mapsto> 0.8], challenges = None\<rparr>, security = None\<rparr>
     = [''Authentication confidence levels must be: low <= medium <= high'']
   \<and> thresholds (AdaptiveThresholds_init
        \<lparr>authentication = Some \<lparr>confidence_levels =
           Some [''high'' \<mapsto> 0.9, ''medium'' \<mapsto> 0.7, ''low'' \<mapsto> 0.8], challenges = None\<rparr>, security = None\<rparr>)
       = [''high_confidence'' \<mapsto> 0.9, ''medium_confidence'' \<mapsto> 0.7, ''low_confidence'' \<mapsto> 0.8]
   \<and> get_threshold (AdaptiveThresholds_init
        \<lparr>authentication = Some \<lparr>confidence_levels =
           Some [''high'' \<mapsto> 0.9, ''medium'' \<mapsto> 0.7, ''low'' \<mapsto> 0.8], challenges = None\<rparr>, security = None\<rparr>)
        ''low_confidence'' ''default'' = 0.8
   \<and> get_threshold (AdaptiveThresholds_init
        \<lparr>authentication = Some \<lparr>confidence_levels =
           Some [''high'' \<mapsto> 0.9, ''medium'' \<mapsto> 0.7, ''low'' \<mapsto> 0.8], challenges = None\<rparr>, security = None\<rparr>)
        ''medium_confidence'' ''default'' = 0.7"
  by (simp add: validate_config_thresholds_def AdaptiveThresholds_init_def get_threshold_def
        confidence_level_setting_def Let_def)

section \<open>Properties of the decision cascade and the risk engine\<close>

lemma analyze_behavior_decision:
  "behavior_analysis.decision (analyze_behavior self model_confidence model_score context) =
     fst (decision_for
            (get_threshold (adaptive_thresholds self) ''high_confidence'' context)
            (get_threshold (adaptive_thresholds self) ''medium_confidence'' context)
            (get_threshold (adaptive_thresholds self) ''low_confidence'' context)
            (combined_confidence (analyze_behavior self model_confidence model_score context)))"
  by (simp add: analyze_behavior_def Let_def)

text \<open>
  C6. For every triple of effective thresholds, ordered or not, the decision of the
  cascade never loses trust when the combined confidence grows: for \<open>c1 \<le> c2\<close> the
  decision at \<open>c1\<close> ranks no higher than the decision at \<open>c2\<close> in the order
  continue > monitor > challenge > logout. The same holds for the decisions of
  \<^verbatim>\<open>analyze_behavior\<close> on a fixed manager and context, whatever scores produce
  the two combined confidences. No bound on \<open>c1\<close> and \<open>c2\<close> is needed.
\<close>

theorem decision_monotone:
  assumes "c1 \<le> c2"
  shows "trust_level (fst (decision_for high medium low c1))
           \<le> trust_level (fst (decision_for high medium low c2))
       \<and> (combined_confidence (analyze_behavior self a1 s1 context) = c1
            \<and> combined_confidence (analyze_behavior self a2 s2 context) = c2
          \<longrightarrow> trust_level (behavior_analysis.decision (analyze_behavior self a1 s1 context))
                \<le> trust_level (behavior_analysis.decision (analyze_behavior self a2 s2 context)))"
proof -
  have cascade: "trust_level (fst (decision_for h m l c1)) \<le> trust_level (fst (decision_for h m l c2))"
    for h m l :: real
    using assms by (simp add: decision_for_def trust_level_def)
  show ?thesis
    using cascade by (simp add: analyze_behavior_decision)
qed

theorem decision_monotone_witness:
  "(0.4 :: real) \<le> 0.6
   \<and> trust_level (fst (decision_for 0.5 0.9 0.1 0.4)) = 1
   \<and> trust_level (fst (decision_for 0.5 0.9 0.1 0.6)) = 3
   \<and> combined_confidence
        (analyze_behavior
           \<lparr>behavior_classifier_is_trained = True, anomaly_detector_is_trained = True,
            adaptive_thresholds = AdaptiveThresholds_init \<lparr>authentication = None, security = None\<rparr>\<rparr>
           (Some 0.4) (Some 0.6) ''default'') = 0.4
   \<and> combined_confidence
        (analyze_behavior
           \<lparr>behavior_classifier_is_trained = True, anomaly_detector_is_trained = True,
            adaptive_thresholds = AdaptiveThresholds_init \<lparr>authentication = None, security = None\<rparr>\<rparr>
           (Some 0.7) (Some 0.5) ''default'') = 0.6
   \<and> trust_level (behavior_analysis.decision
        (analyze_behavior
           \<lparr>behavior_classifier_is_trained = True, anomaly_detector_is_trained = True,
            adaptive_thresholds = AdaptiveThresholds_init \<lparr>authentication = None, security = None\<rparr>\<rparr>
           (Some 0.4) (Some 0.6) ''default''))
       \<le> trust_level (behavior_analysis.decision
        (analyze_behavior
           \<lparr>behavior_classifier_is_trained = True, anomaly_detector_is_trained = True,
            adaptive_thresholds = AdaptiveThresholds_init \<lparr>authentication = None, security = None\<rparr>\<rparr>
           (Some 0.7) (Some 0.5) ''default''))"
  using decision_monotone
    [of "0.4" "0.6" "0.5" "0.9" "0.1"
        "\<lparr>behavior_classifier_is_trained = True, anomaly_detector_is_trained = True,
          adaptive_thresholds = AdaptiveThresholds_init \<lparr>authentication = None, security = None\<rparr>\<rparr>"
        "Some 0.4" "Some 0.6" "''default''" "Some 0.7" "Some 0.5"]
  by (simp add: decision_for_def trust_level_def analyze_behavior_def Let_def
        BehaviorClassifier_predict_def AnomalyDetector_predict_def)







text \<open>
  C5, as stated, fails: with the default thresholds and both models returning 0.6, the
  fusion formula gives \<open>(0.6 + (1 - 0.6)) / 2 = 0.5\<close>, not 0.40.
\<close>

theorem scenario_combined_confidence_counterexample:
  "combined_confidence
     (analyze_behavior
        \<lparr>behavior_classifier_is_trained = True, anomaly_detector_is_trained = True,
         adaptive_thresholds = AdaptiveThresholds_init \<lparr>authentication = None, security = None\<rparr>\<rparr>
        (Some 0.6) (Some 0.6) ''default'') = 0.5
   \<and> combined_confidence
     (analyze_behavior
        \<lparr>behavior_classifier_is_trained = True, anomaly_detector_is_trained = True,
         adaptive_thresholds = AdaptiveThresholds_init \<lparr>authentication = None, security = None\<rparr>\<rparr>
        (Some 0.6) (Some 0.6) ''default'') \<noteq> 0.40"
  by (simp add: analyze_behavior_def Let_def BehaviorClassifier_predict_def
        AnomalyDetector_predict_def)

text \<open>
  C5, amended. With the default thresholds 0.9, 0.7 and 0.5, no context adjustment and
  no contextual risk signal, \<open>authConfidence = 0.6\<close> and \<open>anomalyScore = 0.6\<close> give the
  combined confidence \<open>(0.6 + (1 - 0.6)) / 2 = 0.5\<close>, the decision
  \<^verbatim>\<open>challenge\<close> (0.5 reaches the low threshold 0.5), the severity
  \<^verbatim>\<open>medium\<close>, no risk factor, and the recommended actions
  \<^verbatim>\<open>[CHALLENGE_PIN, MONITOR]\<close>, whose first element is the PIN challenge.
\<close>

theorem scenario_challenge_pin:
  fixes manager :: MLManager and analysis :: behavior_analysis
  defines "manager \<equiv>
     \<lparr>behavior_classifier_is_trained = True, anomaly_detector_is_trained = True,
      adaptive_thresholds = AdaptiveThresholds_init \<lparr>authentication = None, security = None\<rparr>\<rparr>"
  defines "analysis \<equiv> analyze_behavior manager (Some 0.6) (Some 0.6) ''default''"
  shows "high_threshold analysis = 0.9 \<and> medium_threshold analysis = 0.7
       \<and> low_threshold analysis = 0.5
       \<and> auth_confidence analysis = 0.6 \<and> anomaly_score analysis = 0.6
       \<and> combined_confidence analysis = (0.6 + (1 - 0.6)) / 2
       \<and> combined_confidence analysis = 0.5
       \<and> behavior_analysis.decision analysis = ''challenge''
       \<and> confidence_level analysis = ''low''
       \<and> risk_factors (analyze_risk analysis
            \<lparr>device_mismatch = False, location_change = False, time_anomaly = False\<rparr>) = []
       \<and> severity (analyze_risk analysis
            \<lparr>device_mismatch = False, location_change = False, time_anomaly = False\<rparr>) = MEDIUM
       \<and> recommended_actions (analyze_risk analysis
            \<lparr>device_mismatch = False, location_change = False, time_anomaly = False\<rparr>)
           = [CHALLENGE_PIN, MONITOR]
       \<and> hd (recommended_actions (analyze_risk analysis
            \<lparr>device_mismatch = False, location_change = False, time_anomaly = False\<rparr>))
           = CHALLENGE_PIN"
proof -
  have fields: "analysis =
      \<lparr> behavior_analysis.decision = ''challenge'', confidence_level = ''low'', combined_confidence = 0.5,
        auth_confidence = 0.6, anomaly_score = 0.6,
        high_threshold = 0.9, medium_threshold = 0.7, low_threshold = 0.5 \<rparr>"
    unfolding analysis_def manager_def
    by (simp add: analyze_behavior_def Let_def BehaviorClassifier_predict_def
          AnomalyDetector_predict_def get_threshold_def AdaptiveThresholds_init_def
          confidence_level_setting_def decision_for_def)
  show ?thesis
    unfolding fields
    by (simp add: analyze_risk_def Let_def calculate_severity_def base_severity_def
          anomaly_adjusted_def factor_adjusted_def critical_factors_def recommend_actions_def)
qed

section \<open>Properties of the orchestration\<close>

lemma untrained_scores:
  assumes "\<not> behavior_classifier_is_trained self" and "\<not> anomaly_detector_is_trained self"
  shows "auth_confidence (analyze_behavior self model_confidence model_score context) = 0"
    and "anomaly_score (analyze_behavior self model_confidence model_score context) = 1"
    and "combined_confidence (analyze_behavior self model_confidence model_score context) = 0"
  using assms
  by (simp_all add: analyze_behavior_def Let_def BehaviorClassifier_predict_def
        AnomalyDetector_predict_def)

lemma untrained_decision:
  assumes "\<not> behavior_classifier_is_trained self" and "\<not> anomaly_detector_is_trained self"
  shows "behavior_analysis.decision (analyze_behavior self model_confidence model_score context)
           = ''logout''"
proof -
  have "\<not> (0 :: real) \<ge> get_threshold (adaptive_thresholds self) level context" for level
    using get_threshold_range [of "adaptive_thresholds self" level "context"] by linarith
  then show ?thesis
    unfolding analyze_behavior_decision untrained_scores(3) [OF assms]
    by (simp add: decision_for_def)
qed

text \<open>
  C1, as stated, fails: a validated session with behavioral features, handled by a
  manager whose two models are not trained, is scored 0.0 and 1.0 (not 0.5 and 0.5),
  the combined confidence is 0 and the decision is \<^verbatim>\<open>logout\<close>, not
  \<^verbatim>\<open>monitor\<close>.
\<close>

theorem untrained_scorer_counterexample:
  "authenticate_continuously
     ((AuthenticationManager_init \<lparr>authentication = None, security = None\<rparr>)
        \<lparr>active_sessions :=
           [''s1'' \<mapsto> \<lparr> session_state.user_id = ''alice'', start_time = 0,
              last_authentication = 0, authentication_count = 0,
              device_fingerprint = None, ip_address = None \<rparr>]\<rparr>)
     ''s1'' None
     (True, Some \<lparr> session_info.user_id = ''alice'', session_info.session_id = ''s1'',
        assessment = \<lparr> security_level = ''low'', risk_score = 0,
                       requires_additional_auth = False \<rparr> \<rparr>)
     Returned_value Returned_value None None
   = \<lparr> success = False, confidence = 0, user_id = ''alice'', session_id = ''s1'',
       decision = ''logout'', message = ''Authentication failed - session terminated'' \<rparr>"
  by (simp add: authenticate_continuously_def analyze_behavior_def Let_def
        AuthenticationManager_init_def MLManager_init_def
        BehaviorClassifier_predict_def AnomalyDetector_predict_def get_threshold_def
        AdaptiveThresholds_init_def confidence_level_setting_def decision_for_def
        get_decision_message_def)

lemma classifier_untrained_scores:
  assumes "\<not> behavior_classifier_is_trained self"
  shows "auth_confidence (analyze_behavior self model_confidence model_score context) = 0"
    and "combined_confidence (analyze_behavior self model_confidence model_score context)
           = (1 - anomaly_score (analyze_behavior self model_confidence model_score context)) / 2"
  using assms
  by (simp_all add: analyze_behavior_def Let_def BehaviorClassifier_predict_def)

lemma detector_untrained_scores:
  assumes "\<not> anomaly_detector_is_trained self"
  shows "anomaly_score (analyze_behavior self model_confidence model_score context) = 1"
    and "combined_confidence (analyze_behavior self model_confidence model_score context)
           = auth_confidence (analyze_behavior self model_confidence model_score context) / 2"
  using assms
  by (simp_all add: analyze_behavior_def Let_def AnomalyDetector_predict_def)

text \<open>
  C1, amended. For a session that passes validation: when the behavioral inputs are
  missing (\<^verbatim>\<open>get_current_features\<close> returns nothing) the result is a success
  with the neutral confidence 0.5 and the decision \<^verbatim>\<open>monitor\<close>. When features are
  there, the result carries the combined confidence and the decision of
  \<^verbatim>\<open>analyze_behavior\<close>, in which no neutral value is substituted: a classifier
  that is not trained scores 0.0, so the combined confidence is
  \<open>(1 - anomalyScore) / 2\<close>; an anomaly detector that is not trained scores 1.0, so
  the combined confidence is \<open>authConfidence / 2\<close>; the decision is what the
  threshold cascade gives for that value, and when neither model is trained the
  combined confidence is 0 and the decision is \<^verbatim>\<open>logout\<close>, for every threshold
  store and context. The call always returns a result, with one of the four decisions.
\<close>

theorem scoring_unavailable_decisions:
  fixes self :: AuthenticationManager
    and sid :: string and tag :: "string option"
    and validation :: "bool \<times> session_info option" and info :: session_info
    and features extraction :: call_outcome
    and model_confidence model_score :: "real option"
  defines "analysis \<equiv>
             analyze_behavior (ml_manager self) model_confidence model_score
               (case tag of None \<Rightarrow> ''default'' | Some t \<Rightarrow> t)"
  defines "outcome \<equiv>
             authenticate_continuously self sid tag validation features extraction
               model_confidence model_score"
  assumes "fst validation" and "snd validation = Some info"
  shows "(features = Returned_None \<longrightarrow>
            outcome
            = \<lparr> success = True, confidence = 0.5, user_id = session_info.user_id info,
                session_id = sid, decision = ''monitor'',
                message = ''Insufficient behavioral data'' \<rparr>)
       \<and> (features = Returned_value \<and> extraction = Returned_value
            \<and> sid \<in> dom (active_sessions self) \<longrightarrow>
            outcome
            = \<lparr> success = (behavior_analysis.decision analysis
                              \<in> set [''continue'', ''monitor'']),
                confidence = combined_confidence analysis,
                user_id = session_info.user_id info, session_id = sid,
                decision = behavior_analysis.decision analysis,
                message = get_decision_message (behavior_analysis.decision analysis) \<rparr>)
       \<and> behavior_analysis.decision analysis
           = fst (decision_for (high_threshold analysis) (medium_threshold analysis)
                    (low_threshold analysis) (combined_confidence analysis))
       \<and> (\<not> behavior_classifier_is_trained (ml_manager self) \<longrightarrow>
            auth_confidence analysis = 0
            \<and> combined_confidence analysis = (1 - anomaly_score analysis) / 2)
       \<and> (\<not> anomaly_detector_is_trained (ml_manager self) \<longrightarrow>
            anomaly_score analysis = 1
            \<and> combined_confidence analysis = auth_confidence analysis / 2)
       \<and> (\<not> behavior_classifier_is_trained (ml_manager self)
            \<and> \<not> anomaly_detector_is_trained (ml_manager self) \<longrightarrow>
            combined_confidence analysis = 0
            \<and> behavior_analysis.decision analysis = ''logout'')
       \<and> (features = Returned_value \<and> extraction = Returned_value
            \<and> sid \<in> dom (active_sessions self)
            \<and> \<not> behavior_classifier_is_trained (ml_manager self)
            \<and> \<not> anomaly_detector_is_trained (ml_manager self) \<longrightarrow>
            outcome
            = \<lparr> success = False, confidence = 0, user_id = session_info.user_id info,
                session_id = sid, decision = ''logout'',
                message = ''Authentication failed - session terminated'' \<rparr>)
       \<and> decision outcome \<in> set [''continue'', ''monitor'', ''challenge'', ''logout'']"
proof -
  have missing: "features = Returned_None \<longrightarrow>
            outcome
            = \<lparr> success = True, confidence = 0.5, user_id = session_info.user_id info,
                session_id = sid, decision = ''monitor'',
                message = ''Insufficient behavioral data'' \<rparr>"
    using assms(3,4) by (simp add: outcome_def authenticate_continuously_def Let_def)
  have scored: "features = Returned_value \<and> extraction = Returned_value
            \<and> sid \<in> dom (active_sessions self) \<longrightarrow>
            outcome
            = \<lparr> success = (behavior_analysis.decision analysis
                              \<in> set [''continue'', ''monitor'']),
                confidence = combined_confidence analysis,
                user_id = session_info.user_id info, session_id = sid,
                decision = behavior_analysis.decision analysis,
                message = get_decision_message (behavior_analysis.decision analysis) \<rparr>"
    using assms(3,4)
    by (auto simp add: outcome_def analysis_def authenticate_continuously_def Let_def)
  have cascade: "behavior_analysis.decision analysis
           = fst (decision_for (high_threshold analysis) (medium_threshold analysis)
                    (low_threshold analysis) (combined_confidence analysis))"
    by (simp add: analysis_def analyze_behavior_def Let_def)
  have classifier: "\<not> behavior_classifier_is_trained (ml_manager self) \<longrightarrow>
            auth_confidence analysis = 0
            \<and> combined_confidence analysis = (1 - anomaly_score analysis) / 2"
    unfolding analysis_def using classifier_untrained_scores by blast
  have detector: "\<not> anomaly_detector_is_trained (ml_manager self) \<longrightarrow>
            anomaly_score analysis = 1
            \<and> combined_confidence analysis = auth_confidence analysis / 2"
    unfolding analysis_def using detector_untrained_scores by blast
  have neither: "\<not> behavior_classifier_is_trained (ml_manager self)
            \<and> \<not> anomaly_detector_is_trained (ml_manager self) \<longrightarrow>
            combined_confidence analysis = 0
            \<and> behavior_analysis.decision analysis = ''logout''"
    unfolding analysis_def using untrained_scores(3) untrained_decision by blast
  have logout: "features = Returned_value \<and> extraction = Returned_value
            \<and> sid \<in> dom (active_sessions self)
            \<and> \<not> behavior_classifier_is_trained (ml_manager self)
            \<and> \<not> anomaly_detector_is_trained (ml_manager self) \<longrightarrow>
            outcome
            = \<lparr> success = False, confidence = 0, user_id = session_info.user_id info,
                session_id = sid, decision = ''logout'',
                message = ''Authentication failed - session terminated'' \<rparr>"
    using scored neither by (auto simp add: get_decision_message_def)
  have four: "decision outcome \<in> set [''continue'', ''monitor'', ''challenge'', ''logout'']"
    by (simp add: outcome_def authenticate_continuously_def Let_def analyze_behavior_def
          decision_for_def split: option.splits call_outcome.splits)
  show ?thesis
    using missing scored cascade classifier detector neither logout four
    by (intro conjI)
qed

theorem scoring_unavailable_decisions_witness:
  "decision (authenticate_continuously
       ((AuthenticationManager_init \<lparr>authentication = None, security = None\<rparr>)
          \<lparr>active_sessions :=
             [''s1'' \<mapsto> \<lparr> session_state.user_id = ''alice'', start_time = 0,
                last_authentication = 0, authentication_count = 0,
                device_fingerprint = None, ip_address = None \<rparr>]\<rparr>)
       ''s1'' None
       (True, Some \<lparr> session_info.user_id = ''alice'', session_info.session_id = ''s1'',
          assessment = \<lparr> security_level = ''low'', risk_score = 0,
                         requires_additional_auth = False \<rparr> \<rparr>)
       Returned_None Returned_value None None) = ''monitor''
   \<and> decision (authenticate_continuously
       ((AuthenticationManager_init \<lparr>authentication = None, security = None\<rparr>)
          \<lparr>active_sessions :=
             [''s1'' \<mapsto> \<lparr> session_state.user_id = ''alice'', start_time = 0,
                last_authentication = 0, authentication_count = 0,
                device_fingerprint = None, ip_address = None \<rparr>]\<rparr>)
       ''s1'' None
       (True, Some \<lparr> session_info.user_id = ''alice'', session_info.session_id = ''s1'',
          assessment = \<lparr> security_level = ''low'', risk_score = 0,
                         requires_additional_auth = False \<rparr> \<rparr>)
       Returned_value Returned_value None None) = ''logout''
   \<and> authenticate_continuously
       ((AuthenticationManager_init \<lparr>authentication = None, security = None\<rparr>)
          \<lparr>ml_manager :=
             \<lparr> behavior_classifier_is_trained = False, anomaly_detector_is_trained = True,
               adaptive_thresholds =
                 AdaptiveThresholds_init \<lparr>authentication = None, security = None\<rparr> \<rparr>,
           active_sessions :=
             [''s1'' \<mapsto> \<lparr> session_state.user_id = ''alice'', start_time = 0,
                last_authentication = 0, authentication_count = 0,
                device_fingerprint = None, ip_address = None \<rparr>]\<rparr>)
       ''s1'' None
       (True, Some \<lparr> session_info.user_id = ''alice'', session_info.session_id = ''s1'',
          assessment = \<lparr> security_level = ''low'', risk_score = 0,
                         requires_additional_auth = False \<rparr> \<rparr>)
       Returned_value Returned_value None (Some 0)
     = \<lparr> success = False, confidence = 0.5, user_id = ''alice'', session_id = ''s1'',
         decision = ''challenge'', message = ''Additional authentication required'' \<rparr>
   \<and> authenticate_continuously
       ((AuthenticationManager_init \<lparr>authentication = None, security = None\<rparr>)
          \<lparr>ml_manager :=
             \<lparr> behavior_classifier_is_trained = True, anomaly_detector_is_trained = False,
               adaptive_thresholds =
                 AdaptiveThresholds_init \<lparr>authentication = None, security = None\<rparr> \<rparr>,
           active_sessions :=
             [''s1'' \<mapsto> \<lparr> session_state.user_id = ''alice'', start_time = 0,
                last_authentication = 0, authentication_count = 0,
                device_fingerprint = None, ip_address = None \<rparr>]\<rparr>)
       ''s1'' None
       (True, Some \<lparr> session_info.user_id = ''alice'', session_info.session_id = ''s1'',
          assessment = \<lparr> security_level = ''low'', risk_score = 0,
                         requires_additional_auth = False \<rparr> \<rparr>)
       Returned_value Returned_value (Some 1) None
     = \<lparr> success = False, confidence = 0.5, user_id = ''alice'', session_id = ''s1'',
         decision = ''challenge'', message = ''Additional authentication required'' \<rparr>"
proof -
  let ?sessions =
    "[''s1'' \<mapsto> \<lparr> session_state.user_id = ''alice'', start_time = 0,
        last_authentication = 0, authentication_count = 0,
        device_fingerprint = None, ip_address = None \<rparr>]"
  let ?fresh = "AuthenticationManager_init \<lparr>authentication = None, security = None\<rparr>"
  let ?store = "AdaptiveThresholds_init \<lparr>authentication = None, security = None\<rparr>"
  let ?neither = "?fresh\<lparr>active_sessions := ?sessions\<rparr>"
  let ?no_classifier =
    "?fresh\<lparr>ml_manager :=
        \<lparr> behavior_classifier_is_trained = False, anomaly_detector_is_trained = True,
          adaptive_thresholds = ?store \<rparr>,
      active_sessions := ?sessions\<rparr>"
  let ?no_detector =
    "?fresh\<lparr>ml_manager :=
        \<lparr> behavior_classifier_is_trained = True, anomaly_detector_is_trained = False,
          adaptive_thresholds = ?store \<rparr>,
      active_sessions := ?sessions\<rparr>"
  let ?info =
    "\<lparr> session_info.user_id = ''alice'', session_info.session_id = ''s1'',
        assessment = \<lparr> security_level = ''low'', risk_score = 0,
                       requires_additional_auth = False \<rparr> \<rparr>"
  have valid: "fst (True, Some ?info)" and info: "snd (True, Some ?info) = Some ?info"
    by simp_all
  have state: "\<not> behavior_classifier_is_trained (ml_manager ?neither)"
      "\<not> anomaly_detector_is_trained (ml_manager ?neither)"
      "''s1'' \<in> dom (active_sessions ?neither)"
      "\<not> behavior_classifier_is_trained (ml_manager ?no_classifier)"
      "''s1'' \<in> dom (active_sessions ?no_classifier)"
      "\<not> anomaly_detector_is_trained (ml_manager ?no_detector)"
      "''s1'' \<in> dom (active_sessions ?no_detector)"
    by (simp_all add: AuthenticationManager_init_def MLManager_init_def)
  have thresholds: "get_threshold ?store ''high_confidence'' ''default'' = 0.9"
      "get_threshold ?store ''medium_confidence'' ''default'' = 0.7"
      "get_threshold ?store ''low_confidence'' ''default'' = 0.5"
    by (simp_all add: get_threshold_def AdaptiveThresholds_init_def
          confidence_level_setting_def Let_def)
  have half: "analyze_behavior
          \<lparr> behavior_classifier_is_trained = False, anomaly_detector_is_trained = True,
            adaptive_thresholds = ?store \<rparr> None (Some 0) ''default''
        = \<lparr> behavior_analysis.decision = ''challenge'', confidence_level = ''low'',
            combined_confidence = 0.5, auth_confidence = 0, anomaly_score = 0,
            high_threshold = 0.9, medium_threshold = 0.7, low_threshold = 0.5 \<rparr>"
      "analyze_behavior
          \<lparr> behavior_classifier_is_trained = True, anomaly_detector_is_trained = False,
            adaptive_thresholds = ?store \<rparr> (Some 1) None ''default''
        = \<lparr> behavior_analysis.decision = ''challenge'', confidence_level = ''low'',
            combined_confidence = 0.5, auth_confidence = 1, anomaly_score = 1,
            high_threshold = 0.9, medium_threshold = 0.7, low_threshold = 0.5 \<rparr>"
    by (simp_all add: analyze_behavior_def Let_def thresholds decision_for_def
          BehaviorClassifier_predict_def AnomalyDetector_predict_def)
  note missing = scoring_unavailable_decisions
            [where validation = "(True, Some ?info)" and info = ?info and self = ?neither
               and tag = None and sid = "''s1''" and features = Returned_None
               and extraction = Returned_value and model_confidence = None
               and model_score = None, OF valid info]
  note neither = scoring_unavailable_decisions
            [where validation = "(True, Some ?info)" and info = ?info and self = ?neither
               and tag = None and sid = "''s1''" and features = Returned_value
               and extraction = Returned_value and model_confidence = None
               and model_score = None, OF valid info]
  note no_classifier = scoring_unavailable_decisions
            [where validation = "(True, Some ?info)" and info = ?info
               and self = ?no_classifier
               and tag = None and sid = "''s1''" and features = Returned_value
               and extraction = Returned_value and model_confidence = None
               and model_score = "Some 0", OF valid info]
  note no_detector = scoring_unavailable_decisions
            [where validation = "(True, Some ?info)" and info = ?info
               and self = ?no_detector
               and tag = None and sid = "''s1''" and features = Returned_value
               and extraction = Returned_value and model_confidence = "Some 1"
               and model_score = None, OF valid info]
  have first: "decision (authenticate_continuously ?neither ''s1'' None (True, Some ?info)
                 Returned_None Returned_value None None) = ''monitor''"
    using missing [THEN conjunct1] by simp
  have second: "decision (authenticate_continuously ?neither ''s1'' None (True, Some ?info)
                 Returned_value Returned_value None None) = ''logout''"
    using neither [THEN conjunct2, THEN conjunct2, THEN conjunct2, THEN conjunct2,
                   THEN conjunct2, THEN conjunct2, THEN conjunct1] state(1-3)
    by simp
  have third: "authenticate_continuously ?no_classifier ''s1'' None (True, Some ?info)
                 Returned_value Returned_value None (Some 0)
        = \<lparr> success = False, confidence = 0.5, user_id = ''alice'', session_id = ''s1'',
            decision = ''challenge'', message = ''Additional authentication required'' \<rparr>"
    using no_classifier [THEN conjunct2, THEN conjunct1] state(5)
    by (simp add: half(1) get_decision_message_def)
  have fourth: "authenticate_continuously ?no_detector ''s1'' None (True, Some ?info)
                 Returned_value Returned_value (Some 1) None
        = \<lparr> success = False, confidence = 0.5, user_id = ''alice'', session_id = ''s1'',
            decision = ''challenge'', message = ''Additional authentication required'' \<rparr>"
    using no_detector [THEN conjunct2, THEN conjunct1] state(7)
    by (simp add: half(2) get_decision_message_def)
  from first second third fourth show ?thesis
    by (intro conjI)
qed

section \<open>Properties of the session registry\<close>

lemma invalidate_stored:
  assumes "SessionManager.active_sessions self sid = Some token"
  shows "fst (invalidate_session self sid) =
           self\<lparr>SessionManager.active_sessions := (SessionManager.active_sessions self)(sid := None)\<rparr>"
  using assms by (simp add: invalidate_session_def dom_def)

text \<open>
  C2, as stated, fails for the IP address: a stored session created from 10.0.0.1 and
  validated from 10.0.0.2 (same fingerprint, not expired, not idle) stays stored and
  is returned as valid; the mismatch only adds 0.2 to the risk score of the
  assessment.
\<close>

theorem ip_mismatch_counterexample:
  "SecurityManager_validate_session
     ((SessionManager_init \<lparr>authentication = None, security = None\<rparr>)
        \<lparr>SessionManager.active_sessions :=
           [''s1'' \<mapsto> \<lparr> token_id = ''t1'', SessionToken.user_id = ''alice'',
              SessionToken.session_id = ''s1'', SessionToken.created_at = 0,
              SessionToken.expires_at = 1800, last_activity = 0,
              SessionToken.device_fingerprint = Some ''laptop'',
              SessionToken.ip_address = Some ''10.0.0.1'' \<rparr>]\<rparr>)
     ''s1'' (Some ''laptop'') (Some ''10.0.0.2'') 10 10 10 10
   = ((SessionManager_init \<lparr>authentication = None, security = None\<rparr>)
        \<lparr>SessionManager.active_sessions :=
           [''s1'' \<mapsto> \<lparr> token_id = ''t1'', SessionToken.user_id = ''alice'',
              SessionToken.session_id = ''s1'', SessionToken.created_at = 0,
              SessionToken.expires_at = 1800, last_activity = 10,
              SessionToken.device_fingerprint = Some ''laptop'',
              SessionToken.ip_address = Some ''10.0.0.1'' \<rparr>]\<rparr>,
      (True, Some \<lparr> session_info.user_id = ''alice'', session_info.session_id = ''s1'',
         assessment = \<lparr> security_level = ''low'', risk_score = 0.2,
                        requires_additional_auth = False \<rparr> \<rparr>))"
  by (simp add: SecurityManager_validate_session_def SessionManager_validate_session_def
        SessionManager_init_def is_expired_def is_valid_def supplied_def
        assess_session_security_def Let_def)

text \<open>
  C2, amended. For every stored session and every validation call where both sides
  supply a non-empty device fingerprint, a mismatch is a binary gate:
  \<^verbatim>\<open>validate_session\<close> removes the session and returns no token, whatever the
  clock says, and the security manager reports the session invalid. The IP address
  is not a gate: the outcome of \<^verbatim>\<open>SessionManager.validate_session\<close> is the same
  for every IP address supplied; a mismatch between two supplied addresses only adds
  0.2 to the risk score of \<^verbatim>\<open>_assess_session_security\<close>.
\<close>

theorem fingerprint_gate_ip_scored:
  assumes "SessionManager.active_sessions self sid = Some token"
  shows "(supplied fingerprint \<and> supplied (SessionToken.device_fingerprint token)
            \<and> fingerprint \<noteq> SessionToken.device_fingerprint token \<longrightarrow>
            SessionManager_validate_session self sid fingerprint ip now1 now2 now3
              = (self\<lparr>SessionManager.active_sessions :=
                        (SessionManager.active_sessions self)(sid := None)\<rparr>, None)
            \<and> SecurityManager_validate_session self sid fingerprint ip now1 now2 now3 now4
              = (self\<lparr>SessionManager.active_sessions :=
                        (SessionManager.active_sessions self)(sid := None)\<rparr>, (False, None)))
       \<and> SessionManager_validate_session self sid fingerprint ip now1 now2 now3
           = SessionManager_validate_session self sid fingerprint ip' now1 now2 now3
       \<and> (supplied ip \<and> supplied (SessionToken.ip_address token)
            \<and> ip \<noteq> SessionToken.ip_address token \<longrightarrow>
            risk_score (assess_session_security token fingerprint ip now4)
              = risk_score (assess_session_security token fingerprint None now4) + 0.2)"
proof -
  have gate: "SessionManager_validate_session self sid fingerprint ip now1 now2 now3
              = (self\<lparr>SessionManager.active_sessions :=
                        (SessionManager.active_sessions self)(sid := None)\<rparr>, None)"
    if "supplied fingerprint" and "supplied (SessionToken.device_fingerprint token)"
      and "fingerprint \<noteq> SessionToken.device_fingerprint token"
    using assms that
    by (simp add: SessionManager_validate_session_def invalidate_stored [OF assms])
  have ip_free: "SessionManager_validate_session self sid fingerprint ip now1 now2 now3
           = SessionManager_validate_session self sid fingerprint ip' now1 now2 now3"
    using assms by (simp add: SessionManager_validate_session_def Let_def)
  have scored: "risk_score (assess_session_security token fingerprint ip now4)
              = risk_score (assess_session_security token fingerprint None now4) + 0.2"
    if "supplied ip" and "supplied (SessionToken.ip_address token)"
      and "ip \<noteq> SessionToken.ip_address token"
    using that by (simp add: assess_session_security_def Let_def supplied_def)
  from gate ip_free scored show ?thesis
    by (simp add: SecurityManager_validate_session_def Let_def)
qed

theorem fingerprint_gate_ip_scored_witness:
  "SessionManager_validate_session
     ((SessionManager_init \<lparr>authentication = None, security = None\<rparr>)
        \<lparr>SessionManager.active_sessions :=
           [''s1'' \<mapsto> \<lparr> token_id = ''t1'', SessionToken.user_id = ''alice'',
              SessionToken.session_id = ''s1'', SessionToken.created_at = 0,
              SessionToken.expires_at = 1800, last_activity = 0,
              SessionToken.device_fingerprint = Some ''laptop'',
              SessionToken.ip_address = Some ''10.0.0.1'' \<rparr>]\<rparr>)
     ''s1'' (Some ''phone'') (Some ''10.0.0.2'') 10 10 10
   = ((SessionManager_init \<lparr>authentication = None, security = None\<rparr>)
        \<lparr>SessionManager.active_sessions := Map.empty\<rparr>, None)
   \<and> risk_score (assess_session_security
        \<lparr> token_id = ''t1'', SessionToken.user_id = ''alice'',
          SessionToken.session_id = ''s1'', SessionToken.created_at = 0,
          SessionToken.expires_at = 1800, last_activity = 0,
          SessionToken.device_fingerprint = Some ''laptop'',
          SessionToken.ip_address = Some ''10.0.0.1'' \<rparr>
        (Some ''phone'') (Some ''10.0.0.2'') 10) = 0.5"
proof -
  let ?token =
    "\<lparr> token_id = ''t1'', SessionToken.user_id = ''alice'',
       SessionToken.session_id = ''s1'', SessionToken.created_at = 0,
       SessionToken.expires_at = 1800, last_activity = 0,
       SessionToken.device_fingerprint = Some ''laptop'',
       SessionToken.ip_address = Some ''10.0.0.1'' \<rparr>"
  let ?manager =
    "(SessionManager_init \<lparr>authentication = None, security = None\<rparr>)
        \<lparr>SessionManager.active_sessions := [''s1'' \<mapsto> ?token]\<rparr>"
  have stored: "SessionManager.active_sessions ?manager ''s1'' = Some ?token"
    by simp
  have supplied: "supplied (Some ''phone'')" "supplied (SessionToken.device_fingerprint ?token)"
      "Some ''phone'' \<noteq> SessionToken.device_fingerprint ?token"
      "supplied (Some ''10.0.0.2'')" "supplied (SessionToken.ip_address ?token)"
      "Some ''10.0.0.2'' \<noteq> SessionToken.ip_address ?token"
    by (simp_all add: supplied_def)
  have base: "risk_score (assess_session_security ?token (Some ''phone'') None 10) = 0.3"
    by (simp add: assess_session_security_def Let_def supplied_def)
  show ?thesis
    using fingerprint_gate_ip_scored
            [of ?manager "''s1''" ?token "Some ''phone''" "Some ''10.0.0.2''" 10 10 10 10 None,
             OF stored]
          supplied base
    by simp
qed


section \<open>Properties of end_session\<close>

text \<open>
  C9, as stated, fails for the behavioral session: \<^verbatim>\<open>end_session\<close> calls
  \<^verbatim>\<open>behavioral_manager.stop_session()\<close> before it looks at the session id, so ending
  the unknown id \<^verbatim>\<open>'ghost'\<close> returns \<^verbatim>\<open>True\<close> and deactivates the behavioral
  session of \<^verbatim>\<open>'s1'\<close>, a different session.
\<close>

theorem end_unknown_session_counterexample:
  "''ghost'' \<notin> dom (active_sessions one_session_manager)
   \<and> ''ghost'' \<notin> dom (SessionManager.active_sessions (session_manager one_session_manager))
   \<and> snd (end_session one_session_manager ''ghost'' True) = True
   \<and> current_session (behavioral_manager one_session_manager)
       = Some \<lparr> BehaviorSession.session_id = ''s1'', BehaviorSession.user_id = ''alice'',
                BehaviorSession.start_time = 0, features_collected = 0,
                is_active = True, confidence_score = 0 \<rparr>
   \<and> current_session (behavioral_manager (fst (end_session one_session_manager ''ghost'' True)))
       = Some \<lparr> BehaviorSession.session_id = ''s1'', BehaviorSession.user_id = ''alice'',
                BehaviorSession.start_time = 0, features_collected = 0,
                is_active = False, confidence_score = 0 \<rparr>
   \<and> is_running (behavioral_manager one_session_manager)
   \<and> \<not> is_running (behavioral_manager (fst (end_session one_session_manager ''ghost'' True)))"
  by (simp add: one_session_manager_def end_session_def stop_session_def invalidate_session_def
        AuthenticationManager_init_def SessionManager_init_def Let_def)

text \<open>
  C9, amended. Calling \<^verbatim>\<open>end_session\<close> with a session id that is in neither the
  active-sessions map nor the security session registry returns \<^verbatim>\<open>True\<close> and
  leaves the active-sessions map, the security session registry, the models and the
  feature history of every other session unchanged. The behavioral manager is stopped
  all the same: it ends as \<^verbatim>\<open>stop_session\<close> leaves it, and when it has a current
  session and the collectors stop, that session is marked inactive and collection is
  stopped.
\<close>

theorem end_unknown_session:
  assumes "sid \<notin> dom (active_sessions self)"
    and "sid \<notin> dom (SessionManager.active_sessions (session_manager self))"
  shows "snd (end_session self sid collectors_stop) = True
       \<and> active_sessions (fst (end_session self sid collectors_stop)) = active_sessions self
       \<and> session_manager (fst (end_session self sid collectors_stop)) = session_manager self
       \<and> ml_manager (fst (end_session self sid collectors_stop)) = ml_manager self
       \<and> (\<forall>other. other \<noteq> sid \<longrightarrow>
             feature_history (fst (end_session self sid collectors_stop)) other
               = feature_history self other)
       \<and> behavioral_manager (fst (end_session self sid collectors_stop))
           = fst (stop_session (behavioral_manager self) collectors_stop)
       \<and> (\<forall>s. current_session (behavioral_manager self) = Some s \<and> collectors_stop \<longrightarrow>
             behavioral_manager (fst (end_session self sid collectors_stop))
               = \<lparr> current_session = Some (s\<lparr>is_active := False\<rparr>), is_running = False \<rparr>)"
proof -
  have registry: "fst (invalidate_session (session_manager self) sid) = session_manager self"
    using assms(2) by (simp add: invalidate_session_def)
  have stopped: "behavioral_manager (fst (end_session self sid collectors_stop))
           = fst (stop_session (behavioral_manager self) collectors_stop)"
    by (simp add: end_session_def Let_def)
  have marked: "fst (stop_session (behavioral_manager self) collectors_stop)
                  = \<lparr> current_session = Some (s\<lparr>is_active := False\<rparr>), is_running = False \<rparr>"
    if "current_session (behavioral_manager self) = Some s" and "collectors_stop" for s
    using that by (simp add: stop_session_def)
  have rest: "snd (end_session self sid collectors_stop) = True
       \<and> active_sessions (fst (end_session self sid collectors_stop)) = active_sessions self
       \<and> session_manager (fst (end_session self sid collectors_stop)) = session_manager self
       \<and> ml_manager (fst (end_session self sid collectors_stop)) = ml_manager self
       \<and> (\<forall>other. other \<noteq> sid \<longrightarrow>
             feature_history (fst (end_session self sid collectors_stop)) other
               = feature_history self other)"
    using assms(1) registry by (simp add: end_session_def Let_def)
  have inactive: "\<forall>s. current_session (behavioral_manager self) = Some s \<and> collectors_stop \<longrightarrow>
             behavioral_manager (fst (end_session self sid collectors_stop))
               = \<lparr> current_session = Some (s\<lparr>is_active := False\<rparr>), is_running = False \<rparr>"
    unfolding stopped using marked by blast
  from rest stopped inactive show ?thesis by blast
qed

theorem end_unknown_session_witness:
  "''ghost'' \<notin> dom (active_sessions one_session_manager)
   \<and> ''ghost'' \<notin> dom (SessionManager.active_sessions (session_manager one_session_manager))
   \<and> snd (end_session one_session_manager ''ghost'' True) = True
   \<and> active_sessions (fst (end_session one_session_manager ''ghost'' True)) ''s1''
       = active_sessions one_session_manager ''s1''
   \<and> feature_history (fst (end_session one_session_manager ''ghost'' True)) ''s1'' = Some []
   \<and> is_running (behavioral_manager (fst (end_session one_session_manager ''ghost'' True)))
       = False"
proof -
  have unknown: "''ghost'' \<notin> dom (active_sessions one_session_manager)"
      "''ghost'' \<notin> dom (SessionManager.active_sessions (session_manager one_session_manager))"
    by (simp_all add: one_session_manager_def AuthenticationManager_init_def
          SessionManager_init_def)
  have current: "current_session (behavioral_manager one_session_manager)
       = Some \<lparr> BehaviorSession.session_id = ''s1'', BehaviorSession.user_id = ''alice'',
                BehaviorSession.start_time = 0, features_collected = 0,
                is_active = True, confidence_score = 0 \<rparr>"
    and history: "feature_history one_session_manager ''s1'' = Some []"
    by (simp_all add: one_session_manager_def AuthenticationManager_init_def)
  note ended = end_unknown_session [OF unknown, of True]
  have result: "snd (end_session one_session_manager ''ghost'' True) = True"
    using ended by (rule conjunct1)
  have sessions: "active_sessions (fst (end_session one_session_manager ''ghost'' True))
           = active_sessions one_session_manager"
    using ended by simp
  have others: "\<forall>other. other \<noteq> ''ghost'' \<longrightarrow>
             feature_history (fst (end_session one_session_manager ''ghost'' True)) other
               = feature_history one_session_manager other"
    using ended by simp
  then have kept: "feature_history (fst (end_session one_session_manager ''ghost'' True)) ''s1''
           = feature_history one_session_manager ''s1''"
    by simp
  have "behavioral_manager (fst (end_session one_session_manager ''ghost'' True))
           = fst (stop_session (behavioral_manager one_session_manager) True)"
    using ended by simp
  then have stopped: "\<not> is_running (behavioral_manager
                         (fst (end_session one_session_manager ''ghost'' True)))"
    using current by (simp add: stop_session_def)
  from unknown result sessions kept history stopped show ?thesis
    by simp
qed


section \<open>Properties of the challenge manager\<close>

lemma validate_challenge_response_type:
  assumes "challenge_type c = challenge_type c'"
  shows "validate_challenge_response c response = validate_challenge_response c' response"
  using assms by (simp add: validate_challenge_response_def)

lemma failing_response_step:
  assumes "active_challenges self cid = Some ch"
    and "\<not> is_completed ch"
    and "now \<le> AuthChallenge.expires_at ch"
    and "\<not> fst (validate_challenge_response ch response)"
  shows "process_challenge_response self cid response now =
           (if attempts_remaining ch - 1 \<le> 0
            then (self\<lparr>active_challenges := (active_challenges self)
                     (cid \<mapsto> ch\<lparr>attempts_remaining := attempts_remaining ch - 1,
                                 is_completed := True, is_successful := False\<rparr>)\<rparr>,
                  (False, ''Maximum attempts exceeded''))
            else (self\<lparr>active_challenges := (active_challenges self)
                     (cid \<mapsto> ch\<lparr>attempts_remaining := attempts_remaining ch - 1\<rparr>)\<rparr>,
                  (False, snd (validate_challenge_response ch response))))"
  using assms by (simp add: process_challenge_response_def Let_def)

lemma completed_response_step:
  assumes "active_challenges self cid = Some ch"
    and "is_completed ch"
    and "now \<le> AuthChallenge.expires_at ch"
  shows "process_challenge_response self cid response now =
           (self, (is_successful ch, ''Challenge already completed''))"
  using assms by (simp add: process_challenge_response_def)

lemma failing_responses_pending:
  assumes "active_challenges self cid = Some ch"
    and "\<not> is_completed ch"
    and "\<forall>(response, now) \<in> set calls.
           now \<le> AuthChallenge.expires_at ch \<and> \<not> fst (validate_challenge_response ch response)"
    and "int (length calls) < attempts_remaining ch"
  shows "fst (process_challenge_responses self cid calls) =
           self\<lparr>active_challenges := (active_challenges self)
               (cid \<mapsto> ch\<lparr>attempts_remaining := attempts_remaining ch - int (length calls)\<rparr>)\<rparr>"
  using assms
proof (induction calls arbitrary: self ch)
  case Nil
  then show ?case by (simp add: map_upd_triv)
next
  case (Cons call calls)
  obtain response now where call: "call = (response, now)"
    by (cases call) auto
  let ?ch = "ch\<lparr>attempts_remaining := attempts_remaining ch - 1\<rparr>"
  let ?self = "self\<lparr>active_challenges := (active_challenges self)(cid \<mapsto> ?ch)\<rparr>"
  from Cons.prems(3) call have now: "now \<le> AuthChallenge.expires_at ch"
    and fails: "\<not> fst (validate_challenge_response ch response)"
    by auto
  from Cons.prems(4) have more: "\<not> attempts_remaining ch - 1 \<le> 0"
    by simp
  have step: "process_challenge_response self cid response now =
                (?self, (False, snd (validate_challenge_response ch response)))"
    using failing_response_step [OF Cons.prems(1) Cons.prems(2) now fails] more by simp
  have stored: "active_challenges ?self cid = Some ?ch"
    by simp
  have pending: "\<not> is_completed ?ch"
    using Cons.prems(2) by simp
  have same: "validate_challenge_response ?ch r = validate_challenge_response ch r" for r
    by (rule validate_challenge_response_type) simp
  have rest: "\<forall>(response, now) \<in> set calls.
           now \<le> AuthChallenge.expires_at ?ch \<and> \<not> fst (validate_challenge_response ?ch response)"
    using Cons.prems(3) by (simp add: same)
  have left: "int (length calls) < attempts_remaining ?ch"
    using Cons.prems(4) by simp
  have "fst (process_challenge_responses ?self cid calls) =
          ?self\<lparr>active_challenges := (active_challenges ?self)
             (cid \<mapsto> ?ch\<lparr>attempts_remaining := attempts_remaining ?ch - int (length calls)\<rparr>)\<rparr>"
    by (rule Cons.IH [OF stored pending rest left])
  moreover have "attempts_remaining ch - 1 - int (length calls)
                   = attempts_remaining ch - int (length (call # calls))"
    by simp
  ultimately have final: "fst (process_challenge_responses ?self cid calls) =
          self\<lparr>active_challenges := (active_challenges self)
             (cid \<mapsto> ch\<lparr>attempts_remaining :=
                             attempts_remaining ch - int (length (call # calls))\<rparr>)\<rparr>"
    by (simp add: fun_upd_def cong: if_cong)
  have run: "fst (process_challenge_responses self cid (call # calls))
               = fst (process_challenge_responses ?self cid calls)"
    using step call by (simp add: Let_def)
  from run final show ?case
    by (rule trans)
qed

lemma process_challenge_responses_append:
  "process_challenge_responses self cid (calls @ calls') =
     (fst (process_challenge_responses (fst (process_challenge_responses self cid calls)) cid calls'),
      snd (process_challenge_responses self cid calls)
        @ snd (process_challenge_responses (fst (process_challenge_responses self cid calls)) cid calls'))"
proof (induction calls arbitrary: self)
  case Nil
  then show ?case by simp
next
  case (Cons call calls)
  obtain response now where "call = (response, now)"
    by (cases call) auto
  then show ?case
    using Cons.IH by (simp add: Let_def)
qed

text \<open>
  C3, as stated, fails on the message of the call after exhaustion: with the default
  \<^verbatim>\<open>max_attempts = 3\<close>, three wrong PINs exhaust the challenge and the fourth
  call answers \<^verbatim>\<open>"Challenge already completed"\<close>, not
  \<^verbatim>\<open>"Maximum attempts exceeded"\<close>.
\<close>

theorem call_after_exhaustion_counterexample:
  "snd (process_challenge_response
          (fst (process_challenge_responses
                  (fst (create_challenge
                          (ChallengeManager_init \<lparr>authentication = None, security = None\<rparr>)
                          ''pin'' ''alice'' ''s1'' ''c1'' 0 0))
                  ''c1''
                  [(\<lparr>pin = Some ''0000'', expected_pin = Some ''1234'', biometric_data = None,
                     biometric_confidence = None, sms_code = None, expected_code = None\<rparr>, 10),
                   (\<lparr>pin = Some ''1111'', expected_pin = Some ''1234'', biometric_data = None,
                     biometric_confidence = None, sms_code = None, expected_code = None\<rparr>, 20),
                   (\<lparr>pin = Some ''2222'', expected_pin = Some ''1234'', biometric_data = None,
                     biometric_confidence = None, sms_code = None, expected_code = None\<rparr>, 30)]))
          ''c1''
          \<lparr>pin = Some ''3333'', expected_pin = Some ''1234'', biometric_data = None,
            biometric_confidence = None, sms_code = None, expected_code = None\<rparr> 40)
     = (False, ''Challenge already completed'')
   \<and> ''Challenge already completed'' \<noteq> ''Maximum attempts exceeded''
   \<and> ''Challenge already completed'' \<noteq> ''maximum attempts exceeded''"
  by (simp add: ChallengeManager_init_def create_challenge_def process_challenge_response_def
        validate_challenge_response_def validate_pin_challenge_def Let_def)

text \<open>
  C3, amended. For every challenge created with \<open>max_attempts = N \<ge> 1\<close>, exactly \<open>N\<close>
  consecutive failing \<^verbatim>\<open>process_challenge_response\<close> calls before expiry exhaust
  it: after \<open>k < N\<close> of them the challenge is still pending with \<open>N - k\<close> attempts
  remaining; the \<open>N\<close>th returns \<^verbatim>\<open>"Maximum attempts exceeded"\<close> and leaves it
  completed, unsuccessful, with 0 attempts remaining. The \<open>(N+1)\<close>th call before
  expiry, whatever the response, returns \<^verbatim>\<open>(False, "Challenge already completed")\<close>
  and changes nothing: \<^verbatim>\<open>attempts_remaining\<close> is not decremented further.
\<close>

theorem challenge_attempt_exhaustion:
  fixes self :: ChallengeManager
    and ctype uid sid cid :: string
    and t t' now' :: real
    and calls :: "(challenge_response \<times> real) list"
    and response' :: challenge_response
  defines "created \<equiv> create_challenge self ctype uid sid cid t t'"
  defines "exhausted \<equiv> fst (process_challenge_responses (fst created) cid calls)"
  assumes positive: "1 \<le> max_attempts self"
    and count: "int (length calls) = max_attempts self"
    and failing: "\<forall>(response, now) \<in> set calls.
                    now \<le> t' + challenge_timeout self
                    \<and> \<not> fst (validate_challenge_response (snd created) response)"
    and before_expiry: "now' \<le> t' + challenge_timeout self"
  shows "(\<forall>k < length calls.
            active_challenges
              (fst (process_challenge_responses (fst created) cid (take k calls))) cid
            = Some ((snd created)\<lparr>attempts_remaining := max_attempts self - int k\<rparr>))
       \<and> \<not> is_completed (snd created)
       \<and> active_challenges exhausted cid
           = Some ((snd created)\<lparr>attempts_remaining := 0, is_completed := True,
                                  is_successful := False\<rparr>)
       \<and> last (snd (process_challenge_responses (fst created) cid calls))
           = (False, ''Maximum attempts exceeded'')
       \<and> process_challenge_response exhausted cid response' now'
           = (exhausted, (False, ''Challenge already completed''))"
proof -
  let ?m = "fst created" and ?c = "snd created"
  have stored: "active_challenges ?m cid = Some ?c"
    and pending: "\<not> is_completed ?c"
    and attempts: "attempts_remaining ?c = max_attempts self"
    and expiry: "AuthChallenge.expires_at ?c = t' + challenge_timeout self"
    unfolding created_def by (simp_all add: create_challenge_def Let_def)
  have fail: "\<forall>(response, now) \<in> set calls.
                now \<le> AuthChallenge.expires_at ?c
                \<and> \<not> fst (validate_challenge_response ?c response)"
    using failing expiry by simp
  have prefix: "active_challenges (fst (process_challenge_responses ?m cid (take k calls))) cid
                  = Some (?c\<lparr>attempts_remaining := max_attempts self - int k\<rparr>)"
    if "k < length calls" for k
  proof -
    have part: "\<forall>(response, now) \<in> set (take k calls).
                  now \<le> AuthChallenge.expires_at ?c
                  \<and> \<not> fst (validate_challenge_response ?c response)"
      using fail set_take_subset [of k calls] by blast
    have fewer: "int (length (take k calls)) < attempts_remaining ?c"
      using that count attempts by simp
    have "fst (process_challenge_responses ?m cid (take k calls)) =
            ?m\<lparr>active_challenges := (active_challenges ?m)
               (cid \<mapsto> ?c\<lparr>attempts_remaining :=
                              attempts_remaining ?c - int (length (take k calls))\<rparr>)\<rparr>"
      by (rule failing_responses_pending [OF stored pending part fewer])
    moreover have "length (take k calls) = k"
      using that by simp
    ultimately show ?thesis
      using attempts by simp
  qed
  from positive count have "calls \<noteq> []"
    by auto
  then obtain earlier final where split: "calls = earlier @ [final]"
    by (meson rev_exhaust)
  obtain response now where final: "final = (response, now)"
    by (cases final) auto
  let ?c1 = "?c\<lparr>attempts_remaining := max_attempts self - int (length earlier)\<rparr>"
  let ?m1 = "fst (process_challenge_responses ?m cid earlier)"
  have "active_challenges (fst (process_challenge_responses ?m cid (take (length earlier) calls))) cid
          = Some ?c1"
    by (rule prefix) (simp add: split)
  then have before: "active_challenges ?m1 cid = Some ?c1"
    by (simp add: split)
  have one: "attempts_remaining ?c1 = 1"
    using count by (simp add: split)
  have open1: "\<not> is_completed ?c1"
    using pending by simp
  have in_time: "now \<le> AuthChallenge.expires_at ?c1"
    using fail by (simp add: split final)
  have "validate_challenge_response ?c1 response = validate_challenge_response ?c response"
    by (rule validate_challenge_response_type) simp
  then have wrong: "\<not> fst (validate_challenge_response ?c1 response)"
    using fail by (simp add: split final)
  let ?done = "?c\<lparr>attempts_remaining := 0, is_completed := True, is_successful := False\<rparr>"
  have nth: "process_challenge_response ?m1 cid response now =
               (?m1\<lparr>active_challenges := (active_challenges ?m1)(cid \<mapsto> ?done)\<rparr>,
                (False, ''Maximum attempts exceeded''))"
    using failing_response_step [OF before open1 in_time wrong] one by simp
  have run: "process_challenge_responses ?m cid calls =
               (?m1\<lparr>active_challenges := (active_challenges ?m1)(cid \<mapsto> ?done)\<rparr>,
                snd (process_challenge_responses ?m cid earlier)
                  @ [(False, ''Maximum attempts exceeded'')])"
    unfolding split final
    by (simp add: process_challenge_responses_append nth Let_def)
  have finished: "active_challenges exhausted cid = Some ?done"
    unfolding exhausted_def run by simp
  have answer: "last (snd (process_challenge_responses ?m cid calls))
                  = (False, ''Maximum attempts exceeded'')"
    unfolding run by simp
  have completed: "is_completed ?done" and late: "now' \<le> AuthChallenge.expires_at ?done"
    using before_expiry expiry by simp_all
  have replay: "process_challenge_response exhausted cid response' now'
                  = (exhausted, (False, ''Challenge already completed''))"
    using completed_response_step [OF finished completed late, of response'] by simp
  from prefix pending finished answer replay show ?thesis
    by blast
qed

theorem challenge_attempt_exhaustion_witness:
  "(1 :: int) \<le> max_attempts (ChallengeManager_init \<lparr>authentication = None, security = None\<rparr>)
   \<and> max_attempts (ChallengeManager_init \<lparr>authentication = None, security = None\<rparr>) = 3
   \<and> process_challenge_response
        (fst (process_challenge_responses
                (fst (create_challenge
                        (ChallengeManager_init \<lparr>authentication = None, security = None\<rparr>)
                        ''pin'' ''alice'' ''s1'' ''c1'' 0 0))
                ''c1''
                [(\<lparr>pin = Some ''0000'', expected_pin = Some ''1234'', biometric_data = None,
                   biometric_confidence = None, sms_code = None, expected_code = None\<rparr>, 10),
                 (\<lparr>pin = Some ''1111'', expected_pin = Some ''1234'', biometric_data = None,
                   biometric_confidence = None, sms_code = None, expected_code = None\<rparr>, 20),
                 (\<lparr>pin = Some ''2222'', expected_pin = Some ''1234'', biometric_data = None,
                   biometric_confidence = None, sms_code = None, expected_code = None\<rparr>, 30)]))
        ''c1''
        \<lparr>pin = Some ''1234'', expected_pin = Some ''1234'', biometric_data = None,
          biometric_confidence = None, sms_code = None, expected_code = None\<rparr> 40
     = (fst (process_challenge_responses
                (fst (create_challenge
                        (ChallengeManager_init \<lparr>authentication = None, security = None\<rparr>)
                        ''pin'' ''alice'' ''s1'' ''c1'' 0 0))
                ''c1''
                [(\<lparr>pin = Some ''0000'', expected_pin = Some ''1234'', biometric_data = None,
                   biometric_confidence = None, sms_code = None, expected_code = None\<rparr>, 10),
                 (\<lparr>pin = Some ''1111'', expected_pin = Some ''1234'', biometric_data = None,
                   biometric_confidence = None, sms_code = None, expected_code = None\<rparr>, 20),
                 (\<lparr>pin = Some ''2222'', expected_pin = Some ''1234'', biometric_data = None,
                   biometric_confidence = None, sms_code = None, expected_code = None\<rparr>, 30)]),
        (False, ''Challenge already completed''))"
proof -
  let ?self = "ChallengeManager_init \<lparr>authentication = None, security = None\<rparr>"
  let ?calls =
    "[(\<lparr>pin = Some ''0000'', expected_pin = Some ''1234'', biometric_data = None,
        biometric_confidence = None, sms_code = None, expected_code = None\<rparr>, 10 :: real),
      (\<lparr>pin = Some ''1111'', expected_pin = Some ''1234'', biometric_data = None,
        biometric_confidence = None, sms_code = None, expected_code = None\<rparr>, 20),
      (\<lparr>pin = Some ''2222'', expected_pin = Some ''1234'', biometric_data = None,
        biometric_confidence = None, sms_code = None, expected_code = None\<rparr>, 30)]"
  have attempts: "max_attempts ?self = 3" and timeout: "challenge_timeout ?self = 300"
    by (simp_all add: ChallengeManager_init_def)
  have positive: "1 \<le> max_attempts ?self" and count: "int (length ?calls) = max_attempts ?self"
    using attempts by simp_all
  have failing: "\<forall>(response, now) \<in> set ?calls.
                    now \<le> 0 + challenge_timeout ?self
                    \<and> \<not> fst (validate_challenge_response
                               (snd (create_challenge ?self ''pin'' ''alice'' ''s1'' ''c1'' 0 0))
                               response)"
    by (simp add: timeout create_challenge_def validate_challenge_response_def
          validate_pin_challenge_def Let_def)
  have before_expiry: "(40 :: real) \<le> 0 + challenge_timeout ?self"
    by (simp add: timeout)
  show ?thesis
    using challenge_attempt_exhaustion [OF positive count failing before_expiry] positive attempts
    by simp
qed

end
